theory Spec2Isabelle
  imports Complex_Main "HOL-Library.Sublist" "HOL-Library.AList"
begin

section \<open>JavaScript values\<close>

text \<open>
  A number is an IEEE 754 double: it is modelled by the real it denotes, and an addition,
  multiplication or division returns the double nearest to the exact result, ties going
  to the even significand (\<open>toDouble\<close>). \<open>NaN\<close> and the infinities are not reals: they
  appear only where the code can meet them (the results of \<open>Math.min\<close> and \<open>Math.max\<close>,
  a day count handed in by the caller), and an operation whose result would leave the
  finite range (magnitude \<open>2 ^ 1024\<close> and more) is outside the model, as is the sign of zero.
\<close>

definition roundHalfEven :: "real \<Rightarrow> int" where
  "roundHalfEven y =
     (let f = \<lfloor>y\<rfloor>; r = y - of_int f
      in if r < 1 / 2 then f else if r > 1 / 2 then f + 1 else if even f then f else f + 1)"

text \<open>The binary exponent of a positive number, \<open>e\<close> with \<open>2 ^ e \<le> x < 2 ^ (e + 1)\<close>, kept
  between -1022 (below it the doubles are subnormal and equally spaced) and 1023.\<close>

function expUp :: "real \<Rightarrow> int \<Rightarrow> int" where
  "expUp x e = (if x < 2 \<or> e \<ge> 1023 then e else expUp (x / 2) (e + 1))"
  by pat_completeness auto
termination
  by (relation "measure (\<lambda>(x, e). nat (1023 - e))") auto

function expDown :: "real \<Rightarrow> int \<Rightarrow> int" where
  "expDown x e = (if x \<ge> 1 \<or> e \<le> - 1022 then e else expDown (2 * x) (e - 1))"
  by pat_completeness auto
termination
  by (relation "measure (\<lambda>(x, e). nat (e + 1022))") auto

declare expUp.simps [simp del]
declare expDown.simps [simp del]

definition binaryExponent :: "real \<Rightarrow> int" where
  "binaryExponent x = (if x \<ge> 1 then expUp x 0 else expDown x 0)"

definition pow2 :: "int \<Rightarrow> real" where
  "pow2 e = (if e \<ge> 0 then 2 ^ nat e else 1 / 2 ^ nat (- e))"

text \<open>The double nearest to a real: a multiple of the spacing \<open>2 ^ (e - 52)\<close> at its exponent.\<close>

definition toDouble :: "real \<Rightarrow> real" where
  "toDouble x =
     (if x = 0 then 0
      else (let u = pow2 (binaryExponent \<bar>x\<bar> - 52)
            in sgn x * of_int (roundHalfEven (\<bar>x\<bar> / u)) * u))"

definition fadd :: "real \<Rightarrow> real \<Rightarrow> real" where
  "fadd a b = toDouble (a + b)"

definition fmul :: "real \<Rightarrow> real \<Rightarrow> real" where
  "fmul a b = toDouble (a * b)"

definition fdiv :: "real \<Rightarrow> real \<Rightarrow> real" where
  "fdiv a b = toDouble (a / b)"

text \<open>\<open>Math.round\<close> rounds half up, exactly: it is the floor of \<open>x + 1/2\<close>, an integer that is
  a double whenever \<open>x\<close> is.\<close>

definition Math_round :: "real \<Rightarrow> real" where
  "Math_round x = of_int \<lfloor>x + 1 / 2\<rfloor>"

text \<open>
  A number that may also be \<open>Infinity\<close>, \<open>-Infinity\<close> or \<open>NaN\<close>. \<open>Math.min()\<close> and
  \<open>Math.max()\<close> of no arguments are \<open>Infinity\<close> and \<open>-Infinity\<close>.
\<close>

datatype ext = Finite real | PosInfinity | NegInfinity | NaN

definition Math_min :: "real list \<Rightarrow> ext" where
  "Math_min xs = (case xs of [] \<Rightarrow> PosInfinity | x # r \<Rightarrow> Finite (fold min r x))"

definition Math_max :: "real list \<Rightarrow> ext" where
  "Math_max xs = (case xs of [] \<Rightarrow> NegInfinity | x # r \<Rightarrow> Finite (fold max r x))"

fun Math_round_ext :: "ext \<Rightarrow> ext" where
  "Math_round_ext (Finite x) = Finite (Math_round x)"
| "Math_round_ext PosInfinity = PosInfinity"
| "Math_round_ext NegInfinity = NegInfinity"
| "Math_round_ext NaN = NaN"

text \<open>The comparison \<open>n >= x\<close> of an array length with a number; with \<open>NaN\<close> it is false.\<close>

fun lengthAtLeast :: "nat \<Rightarrow> ext \<Rightarrow> bool" where
  "lengthAtLeast n (Finite x) = (real n \<ge> x)"
| "lengthAtLeast n PosInfinity = False"
| "lengthAtLeast n NegInfinity = True"
| "lengthAtLeast n NaN = False"

text \<open>Truthiness of a number (\<open>0\<close> is falsy) and of an optional number (\<open>undefined\<close> is falsy).\<close>

definition truthyNumber :: "real \<Rightarrow> bool" where
  "truthyNumber x = (x \<noteq> 0)"

definition truthyOptNumber :: "real option \<Rightarrow> bool" where
  "truthyOptNumber x = (case x of None \<Rightarrow> False | Some v \<Rightarrow> truthyNumber v)"

text \<open>
  Strings. The texts the code only compares, searches for an ASCII phrase or cuts at a
  space (messages, descriptions, date-time texts) are lists of 8-bit characters. A text
  whose letters matter, a location or a cache key, is the list of its UTF-16 code units.
\<close>

type_synonym ustring = "nat list"

definition codeUnits :: "string \<Rightarrow> ustring" where
  "codeUnits s = map of_char s"

text \<open>\<open>String.prototype.trim\<close> removes the white space and line terminators of ECMAScript
  from both ends.\<close>

definition isWhiteSpace :: "nat \<Rightarrow> bool" where
  "isWhiteSpace c =
     (c \<in> {0x9, 0xA, 0xB, 0xC, 0xD, 0x20, 0xA0, 0x1680, 0x2028, 0x2029, 0x202F, 0x205F,
            0x3000, 0xFEFF}
      \<or> (0x2000 \<le> c \<and> c \<le> 0x200A))"

definition trim :: "ustring \<Rightarrow> ustring" where
  "trim s = rev (dropWhile isWhiteSpace (rev (dropWhile isWhiteSpace s)))"

text \<open>\<open>includes\<close>, \<open>split(" ")[0]\<close> and \<open>Array.prototype.join\<close>.\<close>

definition includes_str :: "string \<Rightarrow> string \<Rightarrow> bool" where
  "includes_str s sub = sublist sub s"

definition splitSpaceFirst :: "string \<Rightarrow> string" where
  "splitSpaceFirst s = takeWhile (\<lambda>c. c \<noteq> CHR '' '') s"

fun join :: "'a list \<Rightarrow> 'a list list \<Rightarrow> 'a list" where
  "join sep [] = []"
| "join sep [x] = x"
| "join sep (x # y # r) = x @ sep @ join sep (y # r)"

text \<open>
  The parts of the runtime the code calls and this development leaves open: the decimal
  rendering of a number in a template literal, \<open>Number.prototype.toFixed\<close>,
  \<open>Date.prototype.toISOString\<close> (\<open>None\<close> when it throws a \<open>RangeError\<close> on a time value
  out of range), and \<open>String.prototype.toLowerCase\<close> with its Unicode case tables.
\<close>

record JSPlatform =
  numberToString :: "real \<Rightarrow> string"
  toFixed :: "real \<Rightarrow> nat \<Rightarrow> string"
  toISOString :: "real \<Rightarrow> string option"
  toLowerCase :: "ustring \<Rightarrow> ustring"


section \<open>Thrown values and the error classifier\<close>

text \<open>
  What a \<open>catch\<close> clause can receive. An object's optional properties are read the way the
  code reads them: \<open>response\<close> is \<open>None\<close> when the property is missing or falsy,
  \<open>status\<close> is \<open>None\<close> when it is \<open>undefined\<close>, \<open>code\<close> is \<open>None\<close> when the property is
  missing or not a string, and \<open>request\<close> says whether the property is there. A status
  is an integer, as HTTP status codes are.
\<close>

record AxiosResponse =
  status :: "int option"

record ErrorFields =
  message :: string
  response :: "AxiosResponse option"
  code :: "string option"
  request :: bool

record WeatherError =
  message :: string
  cause :: "ErrorFields option"

datatype thrown =
    NonObject
  | WeatherErrorV WeatherError
  | ErrorV ErrorFields
  | ObjectV ErrorFields

definition plainError :: "string \<Rightarrow> ErrorFields" where
  "plainError m = \<lparr>ErrorFields.message = m, response = None, code = None, request = False\<rparr>"

text \<open>The properties of a thrown value as \<open>isTransientError\<close> sees them; \<open>None\<close> for
  \<open>null\<close>, \<open>undefined\<close> and primitives.\<close>

fun fieldsOf :: "thrown \<Rightarrow> ErrorFields option" where
  "fieldsOf NonObject = None"
| "fieldsOf (WeatherErrorV w) = Some (plainError (WeatherError.message w))"
| "fieldsOf (ErrorV e) = Some e"
| "fieldsOf (ObjectV e) = Some e"

definition transientCodes :: "string list" where
  "transientCodes =
     [''ECONNREFUSED'', ''ECONNRESET'', ''ETIMEDOUT'', ''ENOTFOUND'', ''ENETUNREACH'', ''EAI_AGAIN'']"

text \<open>The first block of \<open>isTransientError\<close>: \<open>Some b\<close> when it returns \<open>b\<close>, \<open>None\<close> when
  control falls through to the checks below it.\<close>

definition responseVerdict :: "ErrorFields \<Rightarrow> bool option" where
  "responseVerdict e =
     (case response e of
        None \<Rightarrow> None
      | Some r \<Rightarrow>
          (case status r of
             None \<Rightarrow> None
           | Some s \<Rightarrow>
               if s = 429 \<or> (s \<noteq> 0 \<and> s \<ge> 500 \<and> s < 600) then Some True
               else if s \<noteq> 0 \<and> s \<ge> 400 \<and> s < 500 then Some False
               else None))"

definition codeVerdict :: "ErrorFields \<Rightarrow> bool option" where
  "codeVerdict e =
     (case code e of
        None \<Rightarrow> None
      | Some c \<Rightarrow> if c \<in> set transientCodes then Some True else None)"

definition isTransientError :: "thrown \<Rightarrow> bool" where
  "isTransientError error =
     (case fieldsOf error of
        None \<Rightarrow> False
      | Some e \<Rightarrow>
          (case responseVerdict e of
             Some b \<Rightarrow> b
           | None \<Rightarrow>
               (case codeVerdict e of
                  Some b \<Rightarrow> b
                | None \<Rightarrow>
                    if request e \<and> response e = None then True
                    else False)))"

text \<open>The claim's reading of the classifier, written case by case from its words.\<close>

datatype classification = Transient | Permanent

definition classifier_claimed :: "thrown \<Rightarrow> classification" where
  "classifier_claimed error =
     (case fieldsOf error of
        None \<Rightarrow> Permanent
      | Some e \<Rightarrow>
          (case response e of
             Some r \<Rightarrow>
               (case status r of
                  None \<Rightarrow> Permanent
                | Some s \<Rightarrow>
                    if s = 429 \<or> (500 \<le> s \<and> s < 600) then Transient else Permanent)
           | None \<Rightarrow>
               (case code e of
                  Some c \<Rightarrow> if c \<in> set transientCodes then Transient else Permanent
                | None \<Rightarrow> if request e then Transient else Permanent)))"

text \<open>The classifier as the code has it: a recognised transport code counts whenever the
  response block did not decide, and a request without a response counts whatever its code.\<close>

definition classifier_amended :: "thrown \<Rightarrow> classification" where
  "classifier_amended error =
     (case fieldsOf error of
        None \<Rightarrow> Permanent
      | Some e \<Rightarrow>
          (case response e of
             Some r \<Rightarrow>
               (case status r of
                  None \<Rightarrow>
                    (case code e of
                       Some c \<Rightarrow> if c \<in> set transientCodes then Transient else Permanent
                     | None \<Rightarrow> Permanent)
                | Some s \<Rightarrow>
                    if s = 429 \<or> (500 \<le> s \<and> s < 600) then Transient
                    else if 400 \<le> s \<and> s < 500 then Permanent
                    else
                      (case code e of
                         Some c \<Rightarrow> if c \<in> set transientCodes then Transient else Permanent
                       | None \<Rightarrow> Permanent))
           | None \<Rightarrow>
               (case code e of
                  Some c \<Rightarrow>
                    if c \<in> set transientCodes then Transient
                    else if request e then Transient else Permanent
                | None \<Rightarrow> if request e then Transient else Permanent)))"

text \<open>\<open>LotusWeather.wrapError\<close>.\<close>

definition wrapError :: "thrown \<Rightarrow> string \<Rightarrow> WeatherError" where
  "wrapError error context' =
     (case error of
        WeatherErrorV w \<Rightarrow> w
      | ErrorV e \<Rightarrow>
          if includes_str (ErrorFields.message e) ''City not found''
          then \<lparr>WeatherError.message = ErrorFields.message e, cause = Some e\<rparr>
          else
            (let st = (case response e of None \<Rightarrow> None | Some r \<Rightarrow> status r);
                 hasResponse = (response e \<noteq> None)
             in if hasResponse \<and> st = Some 401
                then \<lparr>WeatherError.message = ''Invalid API key'', cause = Some e\<rparr>
                else if hasResponse \<and> st = Some 404
                then \<lparr>WeatherError.message = ''City not found'', cause = Some e\<rparr>
                else if hasResponse \<and> st = Some 429
                then \<lparr>WeatherError.message = ''Rate limit exceeded'', cause = Some e\<rparr>
                else if hasResponse \<and> (case st of None \<Rightarrow> False | Some s \<Rightarrow> s \<noteq> 0 \<and> s \<ge> 500)
                then \<lparr>WeatherError.message = ''Provider service unavailable'', cause = Some e\<rparr>
                else if code e = Some ''ECONNREFUSED'' \<or> code e = Some ''ENOTFOUND''
                then \<lparr>WeatherError.message = ''Unable to connect to weather service'', cause = Some e\<rparr>
                else if code e = Some ''ETIMEDOUT''
                then \<lparr>WeatherError.message = ''Request timed out'', cause = Some e\<rparr>
                else \<lparr>WeatherError.message = context' @ '': '' @ ErrorFields.message e, cause = Some e\<rparr>)
      | _ \<Rightarrow> \<lparr>WeatherError.message = context' @ '': Unknown error occurred'', cause = None\<rparr>)"


section \<open>The shared response schema\<close>

record Coordinates =
  latitude :: real
  longitude :: real

record CurrentWeatherUnits =
  temperature :: string
  windSpeed :: string
  windDirection :: string
  pressure :: "string option"
  humidity :: "string option"
  visibility :: "string option"

record CurrentWeather =
  city :: string
  temperature :: real
  description :: string
  windSpeed :: real
  windDirection :: real
  isDay :: bool
  timezone :: string
  timezoneAbbreviation :: string
  time :: string
  units :: CurrentWeatherUnits
  elevation :: "real option"
  feelsLike :: "real option"
  humidity :: "real option"
  pressure :: "real option"
  visibility :: "real option"
  clouds :: "real option"
  windGust :: "real option"
  sunrise :: "string option"
  sunset :: "string option"
  country :: "string option"
  seaLevelPressure :: "real option"
  groundLevelPressure :: "real option"

record CurrentWeatherOptions =
  raw :: "bool option"

text \<open>\<open>options?.raw\<close> as a condition.\<close>

definition rawRequested :: "CurrentWeatherOptions option \<Rightarrow> bool" where
  "rawRequested options = (case options of None \<Rightarrow> False | Some opts \<Rightarrow> raw opts = Some True)"

text \<open>
  A forecast day. \<open>minTemp\<close>, \<open>maxTemp\<close> and \<open>maxPop\<close> come out of \<open>Math.min\<close> and
  \<open>Math.max\<close>, and \<open>description\<close> out of an array read at index 0, so the fields have the
  types of those results (\<open>None\<close> is \<open>undefined\<close>).
\<close>

record ForecastDay =
  date :: string
  minTemp :: ext
  maxTemp :: ext
  description :: "string option"
  avgFeelsLike :: "real option"
  avgHumidity :: "real option"
  avgPressure :: "real option"
  avgWindSpeed :: "real option"
  avgClouds :: "real option"
  maxPop :: "ext option"
  totalRain :: "real option"
  totalSnow :: "real option"

record ForecastOptions =
  days :: "ext option"

record ProviderMetadata =
  requiresApiKey :: bool
  supportsForecast :: bool

datatype ProviderType = openweather | open_meteo

fun providerTypeString :: "ProviderType \<Rightarrow> string" where
  "providerTypeString openweather = ''openweather''"
| "providerTypeString open_meteo = ''open-meteo''"

text \<open>
  The values a provider returns and the cache stores: a normalized current weather, the
  raw Open-Meteo body (left as a type parameter: it is passed through untouched), a
  forecast, or coordinates.
\<close>

datatype 'raw Value =
    CurrentWeatherV CurrentWeather
  | RawV 'raw
  | ForecastV "ForecastDay list"
  | CoordinatesV Coordinates

text \<open>
  The \<open>WeatherProvider\<close> interface. A method is a function of its arguments: it stands for
  the answer the upstream gives to the one call a request makes.
\<close>

record 'raw WeatherProvider =
  metadata :: ProviderMetadata
  getCurrentWeatherByCity :: "ustring \<Rightarrow> CurrentWeatherOptions option \<Rightarrow> thrown + 'raw Value"
  getCurrentWeatherByCoords :: "Coordinates \<Rightarrow> CurrentWeatherOptions option \<Rightarrow> thrown + 'raw Value"
  getForecastByCity :: "ustring \<Rightarrow> ForecastOptions option \<Rightarrow> thrown + 'raw Value"
  getForecastByCoords :: "Coordinates \<Rightarrow> ForecastOptions option \<Rightarrow> thrown + 'raw Value"


section \<open>The TTL cache (cache.ts)\<close>

record 'v CacheEntry =
  entryValue :: 'v
  expiresAt :: int

record CacheTTL =
  current :: "int option"
  forecast :: "int option"
  geocoding :: "int option"

record RequiredCacheTTL =
  current :: int
  forecast :: int
  geocoding :: int

definition DEFAULT_TTL :: RequiredCacheTTL where
  "DEFAULT_TTL =
     \<lparr>RequiredCacheTTL.current = 5 * 60 * 1000,
      forecast = 30 * 60 * 1000,
      geocoding = 24 * 60 * 60 * 1000\<rparr>"

datatype CacheKeyType = KCurrent | KForecast | KGeocoding

fun cacheKeyTypeString :: "CacheKeyType \<Rightarrow> string" where
  "cacheKeyTypeString KCurrent = ''current''"
| "cacheKeyTypeString KForecast = ''forecast''"
| "cacheKeyTypeString KGeocoding = ''geocoding''"

text \<open>The cache object: its store, a map from keys to entries, and its lifetimes. Times
  are the millisecond readings of \<open>Date.now()\<close>, passed in by the caller.\<close>

record 'v Cache =
  store :: "ustring \<rightharpoonup> 'v CacheEntry"
  ttl :: RequiredCacheTTL

definition nullish :: "'a option \<Rightarrow> 'a \<Rightarrow> 'a" where
  "nullish x d = (case x of None \<Rightarrow> d | Some v \<Rightarrow> v)"

definition Cache_new :: "CacheTTL option \<Rightarrow> 'v Cache" where
  "Cache_new config =
     \<lparr>store = Map.empty,
      ttl = \<lparr>RequiredCacheTTL.current =
                nullish (case config of None \<Rightarrow> None | Some c \<Rightarrow> CacheTTL.current c)
                  (RequiredCacheTTL.current DEFAULT_TTL),
             forecast =
                nullish (case config of None \<Rightarrow> None | Some c \<Rightarrow> CacheTTL.forecast c)
                  (RequiredCacheTTL.forecast DEFAULT_TTL),
             geocoding =
                nullish (case config of None \<Rightarrow> None | Some c \<Rightarrow> CacheTTL.geocoding c)
                  (RequiredCacheTTL.geocoding DEFAULT_TTL)\<rparr>\<rparr>"

text \<open>\<open>Cache.createKey\<close>; \<open>if (options)\<close> holds for a string that is there and not empty.
  The lower-casing is the runtime's.\<close>

definition createKey ::
  "JSPlatform \<Rightarrow> ustring \<Rightarrow> CacheKeyType \<Rightarrow> ustring \<Rightarrow> ustring option \<Rightarrow> ustring" where
  "createKey P provider method location options =
     (let parts = [provider, codeUnits (cacheKeyTypeString method), trim (toLowerCase P location)];
          parts' = (case options of
                      None \<Rightarrow> parts
                    | Some opt \<Rightarrow> if opt \<noteq> [] then parts @ [opt] else parts)
      in join (codeUnits '':'') parts')"

text \<open>\<open>Cache.get\<close>: the value returned (\<open>None\<close> is \<open>undefined\<close>) and the cache after the call.\<close>

definition Cache_get :: "int \<Rightarrow> ustring \<Rightarrow> 'v Cache \<Rightarrow> 'v option \<times> 'v Cache" where
  "Cache_get now key c =
     (case store c key of
        None \<Rightarrow> (None, c)
      | Some entry \<Rightarrow>
          if now > expiresAt entry
          then (None, c\<lparr>store := (store c)(key := None)\<rparr>)
          else (Some (entryValue entry), c))"

fun ttlOf :: "RequiredCacheTTL \<Rightarrow> CacheKeyType \<Rightarrow> int" where
  "ttlOf t KCurrent = RequiredCacheTTL.current t"
| "ttlOf t KForecast = RequiredCacheTTL.forecast t"
| "ttlOf t KGeocoding = RequiredCacheTTL.geocoding t"

definition Cache_set :: "int \<Rightarrow> ustring \<Rightarrow> 'v \<Rightarrow> CacheKeyType \<Rightarrow> 'v Cache \<Rightarrow> 'v Cache" where
  "Cache_set now key v type c =
     c\<lparr>store := (store c)(key \<mapsto> \<lparr>entryValue = v, expiresAt = now + ttlOf (ttl c) type\<rparr>)\<rparr>"

definition Cache_has :: "int \<Rightarrow> ustring \<Rightarrow> 'v Cache \<Rightarrow> bool \<times> 'v Cache" where
  "Cache_has now key c = (case Cache_get now key c of (r, c') \<Rightarrow> (r \<noteq> None, c'))"

definition Cache_delete :: "ustring \<Rightarrow> 'v Cache \<Rightarrow> bool \<times> 'v Cache" where
  "Cache_delete key c = (store c key \<noteq> None, c\<lparr>store := (store c)(key := None)\<rparr>)"

definition Cache_clear :: "'v Cache \<Rightarrow> 'v Cache" where
  "Cache_clear c = c\<lparr>store := Map.empty\<rparr>"

section \<open>The OpenWeather provider\<close>

text \<open>
  The upstream bodies, with the fields the provider reads. A nested property
  \<open>data.main.temp\<close> is the field \<open>ow_main_temp\<close>; an optional property is an option.
\<close>

record OWCondition =
  cond_description :: string

record OpenWeatherCurrentResponse =
  ow_weather :: "OWCondition list"
  ow_main_temp :: real
  ow_main_feels_like :: real
  ow_main_pressure :: real
  ow_main_humidity :: real
  ow_main_sea_level :: "real option"
  ow_main_grnd_level :: "real option"
  ow_visibility :: real
  ow_wind_speed :: real
  ow_wind_deg :: real
  ow_wind_gust :: "real option"
  ow_clouds_all :: real
  ow_dt :: real
  ow_sys_country :: string
  ow_sys_sunrise :: real
  ow_sys_sunset :: real
  ow_timezone :: real
  ow_name :: string

record ForecastItem =
  it_dt_txt :: string
  it_main_temp :: real
  it_main_feels_like :: real
  it_main_pressure :: real
  it_main_humidity :: real
  it_weather :: "OWCondition list"
  it_clouds_all :: real
  it_wind_speed :: real
  it_pop :: real
  it_rain_3h :: "real option"
  it_snow_3h :: "real option"

record OpenWeatherForecastResponse =
  fc_city_name :: string
  fc_list :: "ForecastItem list"

record DayAggregate =
  temps :: "real list"
  feelsLike :: "real list"
  humidity :: "real list"
  pressure :: "real list"
  windSpeed :: "real list"
  clouds :: "real list"
  pop :: "real list"
  rain :: "real list"
  snow :: "real list"
  descriptions :: "string list"

text \<open>The HTTP client at the two paths the provider requests, with the query it sends
  (\<open>units: "metric"\<close> goes with both).\<close>

datatype OWQuery = ByCity ustring | ByCoords real real

record AxiosInstance =
  get_weather :: "OWQuery \<Rightarrow> thrown + OpenWeatherCurrentResponse"
  get_forecast :: "OWQuery \<Rightarrow> thrown + OpenWeatherForecastResponse"

text \<open>The errors the runtime throws inside the provider.\<close>

definition TypeError_reading_description :: thrown where
  "TypeError_reading_description =
     ErrorV (plainError ''Cannot read properties of undefined (reading description)'')"

definition RangeError_invalid_time :: thrown where
  "RangeError_invalid_time = ErrorV (plainError ''Invalid time value'')"

definition rawModeError :: thrown where
  "rawModeError = ErrorV (plainError ''Raw mode is only supported for Open-Meteo provider'')"

definition formatTime :: "JSPlatform \<Rightarrow> real \<Rightarrow> string option" where
  "formatTime P timestamp = map_option (take 16) (toISOString P timestamp)"

definition mapToCurrentWeather ::
  "JSPlatform \<Rightarrow> OpenWeatherCurrentResponse \<Rightarrow> thrown + CurrentWeather" where
  "mapToCurrentWeather P data =
     (let now = fmul (ow_dt data) 1000;
          sunrise' = fmul (ow_sys_sunrise data) 1000;
          sunset' = fmul (ow_sys_sunset data) 1000;
          isDay' = (now \<ge> sunrise' \<and> now < sunset');
          offsetHours = fdiv (ow_timezone data) 3600;
          sign = (if offsetHours \<ge> 0 then ''+'' else []);
          timezoneAbbrev = ''UTC'' @ sign @ numberToString P offsetHours;
          windSpeedKmh = fmul (ow_wind_speed data) (toDouble 3.6);
          windGustKmh = (if truthyOptNumber (ow_wind_gust data)
                         then map_option (\<lambda>g. fmul g (toDouble 3.6)) (ow_wind_gust data) else None)
      in case ow_weather data of
           [] \<Rightarrow> Inl TypeError_reading_description
         | w # _ \<Rightarrow>
            (case formatTime P now of
               None \<Rightarrow> Inl RangeError_invalid_time
             | Some time' \<Rightarrow>
                (case formatTime P sunrise' of
                   None \<Rightarrow> Inl RangeError_invalid_time
                 | Some sunriseText \<Rightarrow>
                    (case formatTime P sunset' of
                       None \<Rightarrow> Inl RangeError_invalid_time
                     | Some sunsetText \<Rightarrow>
                        Inr \<lparr>city = ow_name data,
                             CurrentWeather.temperature = ow_main_temp data,
                             CurrentWeather.description = cond_description w,
                             CurrentWeather.windSpeed = fdiv (Math_round (fmul windSpeedKmh 10)) 10,
                             CurrentWeather.windDirection = ow_wind_deg data,
                             isDay = isDay',
                             timezone = timezoneAbbrev,
                             timezoneAbbreviation = timezoneAbbrev,
                             time = time',
                             units = \<lparr>CurrentWeatherUnits.temperature = [CHR 0xB0, CHR ''C''],
                                      CurrentWeatherUnits.windSpeed = ''km/h'',
                                      CurrentWeatherUnits.windDirection = [CHR 0xB0],
                                      CurrentWeatherUnits.pressure = Some ''hPa'',
                                      CurrentWeatherUnits.humidity = Some ''%'',
                                      CurrentWeatherUnits.visibility = Some ''m''\<rparr>,
                             elevation = None,
                             CurrentWeather.feelsLike = Some (ow_main_feels_like data),
                             CurrentWeather.humidity = Some (ow_main_humidity data),
                             CurrentWeather.pressure = Some (ow_main_pressure data),
                             CurrentWeather.visibility = Some (ow_visibility data),
                             CurrentWeather.clouds = Some (ow_clouds_all data),
                             windGust = (if truthyOptNumber windGustKmh
                                         then map_option (\<lambda>g. fdiv (Math_round (fmul g 10)) 10) windGustKmh
                                         else None),
                             sunrise = Some sunriseText,
                             sunset = Some sunsetText,
                             country = Some (ow_sys_country data),
                             seaLevelPressure = ow_main_sea_level data,
                             groundLevelPressure = ow_main_grnd_level data\<rparr>))))"

definition OpenWeatherProvider_getCurrentWeatherByCity ::
  "JSPlatform \<Rightarrow> AxiosInstance \<Rightarrow> ustring \<Rightarrow> CurrentWeatherOptions option \<Rightarrow> thrown + 'raw Value" where
  "OpenWeatherProvider_getCurrentWeatherByCity P client city' options =
     (case get_weather client (ByCity city') of
        Inl e \<Rightarrow> Inl e
      | Inr data \<Rightarrow>
          if rawRequested options then Inl rawModeError
          else map_sum id CurrentWeatherV (mapToCurrentWeather P data))"

definition OpenWeatherProvider_getCurrentWeatherByCoords ::
  "JSPlatform \<Rightarrow> AxiosInstance \<Rightarrow> Coordinates \<Rightarrow> CurrentWeatherOptions option \<Rightarrow> thrown + 'raw Value" where
  "OpenWeatherProvider_getCurrentWeatherByCoords P client coords options =
     (case get_weather client (ByCoords (latitude coords) (longitude coords)) of
        Inl e \<Rightarrow> Inl e
      | Inr data \<Rightarrow>
          if rawRequested options then Inl rawModeError
          else map_sum id CurrentWeatherV (mapToCurrentWeather P data))"

subsection \<open>Forecast aggregation\<close>

definition emptyAggregate :: DayAggregate where
  "emptyAggregate =
     \<lparr>temps = [], feelsLike = [], humidity = [], pressure = [], windSpeed = [],
      clouds = [], pop = [], rain = [], snow = [], descriptions = []\<rparr>"

text \<open>
  One turn of the grouping loop. \<open>byDate\<close> is the \<open>Map\<close> in insertion order. The day
  fetched after the \<open>has\<close>/\<open>set\<close> pair is the stored aggregate, or the fresh empty one;
  the pushes change it in place, which \<open>AList.update\<close> writes back at the key's position
  (at the end for a new key). Reading \<open>item.weather[0].description\<close> of an empty array throws.
\<close>

definition addItem ::
  "ForecastItem \<Rightarrow> (string \<times> DayAggregate) list \<Rightarrow> thrown + (string \<times> DayAggregate) list" where
  "addItem item byDate =
     (let date' = splitSpaceFirst (it_dt_txt item);
          day = (case map_of byDate date' of None \<Rightarrow> emptyAggregate | Some d \<Rightarrow> d);
          day' = day\<lparr>temps := temps day @ [it_main_temp item],
                     feelsLike := DayAggregate.feelsLike day @ [it_main_feels_like item],
                     humidity := DayAggregate.humidity day @ [it_main_humidity item],
                     pressure := DayAggregate.pressure day @ [it_main_pressure item],
                     windSpeed := DayAggregate.windSpeed day @ [fmul (it_wind_speed item) (toDouble 3.6)],
                     clouds := DayAggregate.clouds day @ [it_clouds_all item],
                     pop := pop day @ [fmul (it_pop item) 100],
                     rain := rain day @ [nullish (it_rain_3h item) 0],
                     snow := snow day @ [nullish (it_snow_3h item) 0]\<rparr>
      in case it_weather item of
           [] \<Rightarrow> Inl TypeError_reading_description
         | w # _ \<Rightarrow>
             Inr (AList.update date'
                    (day'\<lparr>descriptions := descriptions day' @ [cond_description w]\<rparr>) byDate))"

fun groupByDate ::
  "ForecastItem list \<Rightarrow> (string \<times> DayAggregate) list \<Rightarrow> thrown + (string \<times> DayAggregate) list" where
  "groupByDate [] byDate = Inr byDate"
| "groupByDate (item # rest) byDate =
     (case addItem item byDate of
        Inl e \<Rightarrow> Inl e
      | Inr byDate' \<Rightarrow> groupByDate rest byDate')"

definition avg :: "real list \<Rightarrow> real" where
  "avg arr =
     (if length arr > 0
      then fdiv (Math_round (fmul (fdiv (foldl fadd 0 arr) (real (length arr))) 10)) 10
      else 0)"

definition sum_arr :: "real list \<Rightarrow> real" where
  "sum_arr arr = fdiv (Math_round (fmul (foldl fadd 0 arr) 10)) 10"

text \<open>\<open>getMostFrequent\<close>: the counting loop, then the scan for the first strictly larger count.\<close>

fun countDescriptions :: "string list \<Rightarrow> (string \<times> nat) list \<Rightarrow> (string \<times> nat) list" where
  "countDescriptions [] counts = counts"
| "countDescriptions (desc # rest) counts =
     countDescriptions rest (AList.update desc (nullish (map_of counts desc) 0 + 1) counts)"

fun scanCounts :: "(string \<times> nat) list \<Rightarrow> nat \<Rightarrow> string option \<Rightarrow> string option" where
  "scanCounts [] maxCount result = result"
| "scanCounts ((desc, count) # rest) maxCount result =
     (if count > maxCount then scanCounts rest count (Some desc)
      else scanCounts rest maxCount result)"

definition getMostFrequent :: "string list \<Rightarrow> string option" where
  "getMostFrequent ds =
     scanCounts (countDescriptions ds []) 0 (case ds of [] \<Rightarrow> None | d # _ \<Rightarrow> Some d)"

definition toForecastDay :: "string \<Rightarrow> DayAggregate \<Rightarrow> ForecastDay" where
  "toForecastDay date' data =
     (let totalRain' = sum_arr (rain data);
          totalSnow' = sum_arr (snow data)
      in \<lparr>date = date',
          minTemp = Math_min (temps data),
          maxTemp = Math_max (temps data),
          description = getMostFrequent (descriptions data),
          avgFeelsLike = Some (avg (DayAggregate.feelsLike data)),
          avgHumidity = Some (avg (DayAggregate.humidity data)),
          avgPressure = Some (avg (DayAggregate.pressure data)),
          avgWindSpeed = Some (avg (DayAggregate.windSpeed data)),
          avgClouds = Some (avg (DayAggregate.clouds data)),
          maxPop = Some (Math_round_ext (Math_max (pop data))),
          totalRain = (if totalRain' > 0 then Some totalRain' else None),
          totalSnow = (if totalSnow' > 0 then Some totalSnow' else None)\<rparr>)"

text \<open>The conversion loop, with its \<open>break\<close> once \<open>result.length >= days\<close>. The day
  count is whatever number the caller gave.\<close>

fun convertDays ::
  "ext \<Rightarrow> (string \<times> DayAggregate) list \<Rightarrow> ForecastDay list \<Rightarrow> ForecastDay list" where
  "convertDays days' [] result = result"
| "convertDays days' ((date', data) # rest) result =
     (if lengthAtLeast (length result) days' then result
      else convertDays days' rest (result @ [toForecastDay date' data]))"

definition aggregateForecast :: "ForecastItem list \<Rightarrow> ext \<Rightarrow> thrown + ForecastDay list" where
  "aggregateForecast list' days' =
     (case groupByDate list' [] of
        Inl e \<Rightarrow> Inl e
      | Inr byDate \<Rightarrow> Inr (convertDays days' byDate []))"

definition requestedDays :: "ForecastOptions option \<Rightarrow> ext" where
  "requestedDays options =
     nullish (case options of None \<Rightarrow> None | Some opts \<Rightarrow> days opts) (Finite 5)"

definition OpenWeatherProvider_getForecastByCity ::
  "AxiosInstance \<Rightarrow> ustring \<Rightarrow> ForecastOptions option \<Rightarrow> thrown + 'raw Value" where
  "OpenWeatherProvider_getForecastByCity client city' options =
     (case get_forecast client (ByCity city') of
        Inl e \<Rightarrow> Inl e
      | Inr data \<Rightarrow> map_sum id ForecastV (aggregateForecast (fc_list data) (requestedDays options)))"

definition OpenWeatherProvider_getForecastByCoords ::
  "AxiosInstance \<Rightarrow> Coordinates \<Rightarrow> ForecastOptions option \<Rightarrow> thrown + 'raw Value" where
  "OpenWeatherProvider_getForecastByCoords client coords options =
     (case get_forecast client (ByCoords (latitude coords) (longitude coords)) of
        Inl e \<Rightarrow> Inl e
      | Inr data \<Rightarrow> map_sum id ForecastV (aggregateForecast (fc_list data) (requestedDays options)))"

definition OpenWeatherProvider :: "JSPlatform \<Rightarrow> AxiosInstance \<Rightarrow> 'raw WeatherProvider" where
  "OpenWeatherProvider P client =
     \<lparr>metadata = \<lparr>requiresApiKey = True, supportsForecast = True\<rparr>,
      getCurrentWeatherByCity = OpenWeatherProvider_getCurrentWeatherByCity P client,
      getCurrentWeatherByCoords = OpenWeatherProvider_getCurrentWeatherByCoords P client,
      getForecastByCity = OpenWeatherProvider_getForecastByCity client,
      getForecastByCoords = OpenWeatherProvider_getForecastByCoords client\<rparr>"

subsection \<open>Forecast aggregation, earlier version of the provider\<close>

text \<open>
  The provider's earlier source groups the same way and keeps the temperatures and the
  descriptions only; its forecast days have the four common fields.
\<close>

record BasicDayAggregate =
  basic_temps :: "real list"
  basic_descriptions :: "string list"

definition addItem_basic ::
  "ForecastItem \<Rightarrow> (string \<times> BasicDayAggregate) list
     \<Rightarrow> thrown + (string \<times> BasicDayAggregate) list" where
  "addItem_basic item byDate =
     (let date' = splitSpaceFirst (it_dt_txt item);
          day = (case map_of byDate date' of
                   None \<Rightarrow> \<lparr>basic_temps = [], basic_descriptions = []\<rparr>
                 | Some d \<Rightarrow> d);
          day' = day\<lparr>basic_temps := basic_temps day @ [it_main_temp item]\<rparr>
      in case it_weather item of
           [] \<Rightarrow> Inl TypeError_reading_description
         | w # _ \<Rightarrow>
             Inr (AList.update date'
                    (day'\<lparr>basic_descriptions := basic_descriptions day' @ [cond_description w]\<rparr>)
                    byDate))"

fun groupByDate_basic ::
  "ForecastItem list \<Rightarrow> (string \<times> BasicDayAggregate) list
     \<Rightarrow> thrown + (string \<times> BasicDayAggregate) list" where
  "groupByDate_basic [] byDate = Inr byDate"
| "groupByDate_basic (item # rest) byDate =
     (case addItem_basic item byDate of
        Inl e \<Rightarrow> Inl e
      | Inr byDate' \<Rightarrow> groupByDate_basic rest byDate')"

definition toForecastDay_basic :: "string \<Rightarrow> BasicDayAggregate \<Rightarrow> ForecastDay" where
  "toForecastDay_basic date' data =
     \<lparr>date = date',
      minTemp = Math_min (basic_temps data),
      maxTemp = Math_max (basic_temps data),
      description = getMostFrequent (basic_descriptions data),
      avgFeelsLike = None, avgHumidity = None, avgPressure = None, avgWindSpeed = None,
      avgClouds = None, maxPop = None, totalRain = None, totalSnow = None\<rparr>"

fun convertDays_basic ::
  "ext \<Rightarrow> (string \<times> BasicDayAggregate) list \<Rightarrow> ForecastDay list \<Rightarrow> ForecastDay list" where
  "convertDays_basic days' [] result = result"
| "convertDays_basic days' ((date', data) # rest) result =
     (if lengthAtLeast (length result) days' then result
      else convertDays_basic days' rest (result @ [toForecastDay_basic date' data]))"

definition aggregateForecast_basic :: "ForecastItem list \<Rightarrow> ext \<Rightarrow> thrown + ForecastDay list" where
  "aggregateForecast_basic list' days' =
     (case groupByDate_basic list' [] of
        Inl e \<Rightarrow> Inl e
      | Inr byDate \<Rightarrow> Inr (convertDays_basic days' byDate []))"


section \<open>The orchestrator\<close>

record 'raw LotusWeather =
  primaryProvider :: "'raw WeatherProvider"
  fallbackProvider :: "'raw WeatherProvider option"
  cache :: "'raw Value Cache option"
  primaryProviderType :: ProviderType
  fallbackProviderType :: "ProviderType option"

text \<open>
  \<open>executeWithFallback\<close> returns what the caller gets (\<open>Inl\<close> the \<open>WeatherError\<close> thrown)
  together with the log of the calls of the operation. A call is made through \<open>invoke\<close>,
  which applies the operation to the provider and appends the provider's role to the log.
\<close>

datatype Role = Primary | Fallback

definition invoke ::
  "Role \<Rightarrow> 'p \<Rightarrow> ('p \<Rightarrow> thrown + 'a) \<Rightarrow> Role list \<Rightarrow> (thrown + 'a) \<times> Role list" where
  "invoke role provider operation calls = (operation provider, calls @ [role])"

definition executeWithFallback ::
  "'raw LotusWeather \<Rightarrow> ('raw WeatherProvider \<Rightarrow> thrown + 'a) \<Rightarrow> string
     \<Rightarrow> (WeatherError + 'a) \<times> Role list" where
  "executeWithFallback this operation providerName =
     (case invoke Primary (primaryProvider this) operation [] of
        (Inr v, calls) \<Rightarrow> (Inr v, calls)
      | (Inl error, calls) \<Rightarrow>
          (case fallbackProvider this of
             None \<Rightarrow> (Inl (wrapError error providerName), calls)
           | Some fb \<Rightarrow>
               if \<not> isTransientError error
               then (Inl (wrapError error providerName), calls)
               else
                 (case invoke Fallback fb operation calls of
                    (Inr v, calls') \<Rightarrow> (Inr v, calls')
                  | (Inl fallbackError, calls') \<Rightarrow>
                      (Inl (wrapError error providerName), calls'))))"

text \<open>
  The part of \<open>getCurrentWeather\<close> and \<open>getWeatherByCoords\<close> after the cache check: the
  fetch, then the write of a successful result (\<open>now2\<close> is the clock at that write).
\<close>

definition fetchAndStore ::
  "'raw LotusWeather \<Rightarrow> int \<Rightarrow> ustring \<Rightarrow> ('raw WeatherProvider \<Rightarrow> thrown + 'raw Value) \<Rightarrow> string
     \<Rightarrow> (WeatherError + 'raw Value) \<times> Role list \<times> 'raw LotusWeather" where
  "fetchAndStore this now2 cacheKey operation providerName =
     (case executeWithFallback this operation providerName of
        (Inl e, calls) \<Rightarrow> (Inl e, calls, this)
      | (Inr result, calls) \<Rightarrow>
          (Inr result, calls,
           this\<lparr>cache := map_option (Cache_set now2 cacheKey result KCurrent) (cache this)\<rparr>))"

text \<open>
  The cache check (\<open>now1\<close> is the clock at the lookup). A cached value is an object, hence
  truthy, so \<open>if (cached)\<close> is the test that the lookup returned one.
\<close>

definition lookupThenFetch ::
  "'raw LotusWeather \<Rightarrow> int \<Rightarrow> int \<Rightarrow> ustring \<Rightarrow> ('raw WeatherProvider \<Rightarrow> thrown + 'raw Value) \<Rightarrow> string
     \<Rightarrow> (WeatherError + 'raw Value) \<times> Role list \<times> 'raw LotusWeather" where
  "lookupThenFetch this now1 now2 cacheKey operation providerName =
     (case cache this of
        None \<Rightarrow> fetchAndStore this now2 cacheKey operation providerName
      | Some c \<Rightarrow>
          (case Cache_get now1 cacheKey c of
             (Some cached, c') \<Rightarrow> (Inr cached, [], this\<lparr>cache := Some c'\<rparr>)
           | (None, c') \<Rightarrow>
               fetchAndStore (this\<lparr>cache := Some c'\<rparr>) now2 cacheKey operation providerName))"

definition getCurrentWeather ::
  "JSPlatform \<Rightarrow> 'raw LotusWeather \<Rightarrow> int \<Rightarrow> int \<Rightarrow> ustring \<Rightarrow> CurrentWeatherOptions option
     \<Rightarrow> (WeatherError + 'raw Value) \<times> Role list \<times> 'raw LotusWeather" where
  "getCurrentWeather P this now1 now2 city' options =
     (if rawRequested options
      then (case executeWithFallback this
                   (\<lambda>provider. getCurrentWeatherByCity provider city' options)
                   ''getCurrentWeather'' of
              (r, calls) \<Rightarrow> (r, calls, this))
      else
        (let cacheKey = createKey P (codeUnits (providerTypeString (primaryProviderType this)))
                          KCurrent city' None
         in lookupThenFetch this now1 now2 cacheKey
              (\<lambda>provider. getCurrentWeatherByCity provider city' options)
              ''getCurrentWeather''))"

text \<open>\<open>getWeatherByCoords\<close> takes \<open>{lat, lon}\<close>, given here as the two numbers.\<close>

definition getWeatherByCoords ::
  "JSPlatform \<Rightarrow> 'raw LotusWeather \<Rightarrow> int \<Rightarrow> int \<Rightarrow> real \<Rightarrow> real \<Rightarrow> CurrentWeatherOptions option
     \<Rightarrow> (WeatherError + 'raw Value) \<times> Role list \<times> 'raw LotusWeather" where
  "getWeatherByCoords P this now1 now2 lat lon options =
     (let normalizedCoords = \<lparr>latitude = lat, longitude = lon\<rparr>
      in if rawRequested options
         then (case executeWithFallback this
                      (\<lambda>provider. getCurrentWeatherByCoords provider normalizedCoords options)
                      ''getWeatherByCoords'' of
                 (r, calls) \<Rightarrow> (r, calls, this))
         else
           (let cacheKey = createKey P (codeUnits (providerTypeString (primaryProviderType this)))
                             KCurrent (codeUnits (toFixed P lat 4 @ '','' @ toFixed P lon 4)) None
            in lookupThenFetch this now1 now2 cacheKey
                 (\<lambda>provider. getCurrentWeatherByCoords provider normalizedCoords options)
                 ''getWeatherByCoords''))"



section \<open>The daily summary in the words of the specification\<close>

text \<open>
  The samples of a day are the samples whose date-time text has that date before its first
  space.
\<close>

definition dateOf :: "ForecastItem \<Rightarrow> string" where
  "dateOf item = splitSpaceFirst (it_dt_txt item)"

definition samplesOf :: "ForecastItem list \<Rightarrow> string \<Rightarrow> ForecastItem list" where
  "samplesOf list' d = filter (\<lambda>item. dateOf item = d) list'"

definition rainOf :: "ForecastItem \<Rightarrow> real" where
  "rainOf item = (case it_rain_3h item of None \<Rightarrow> 0 | Some r \<Rightarrow> r)"

definition snowOf :: "ForecastItem \<Rightarrow> real" where
  "snowOf item = (case it_snow_3h item of None \<Rightarrow> 0 | Some r \<Rightarrow> r)"

text \<open>
  The claim's reading of a total: rounding to 1 decimal takes the nearest tenth (a half
  going up), and the total is there when the sum is above 0.
\<close>

definition round1 :: "real \<Rightarrow> real" where
  "round1 x = of_int \<lfloor>x * 10 + 1 / 2\<rfloor> / 10"

definition total_claimed :: "real list \<Rightarrow> real option" where
  "total_claimed xs = (if sum_list xs > 0 then Some (round1 (sum_list xs)) else None)"

text \<open>
  The summary in double precision, as the code computes: the sum is added up from 0, left to
  right, every addition rounded; the mean is that sum divided by the number of samples;
  rounding to 1 decimal multiplies by 10, rounds to the nearest integer and divides by
  10; and a total is there when its rounded value is above 0.
\<close>

definition sum64 :: "real list \<Rightarrow> real" where
  "sum64 xs = foldl fadd 0 xs"

definition mean64 :: "real list \<Rightarrow> real" where
  "mean64 xs = fdiv (sum64 xs) (real (length xs))"

definition round1_64 :: "real \<Rightarrow> real" where
  "round1_64 x = fdiv (Math_round (fmul x 10)) 10"

definition total_amended :: "real list \<Rightarrow> real option" where
  "total_amended xs =
     (if round1_64 (sum64 xs) > 0 then Some (round1_64 (sum64 xs)) else None)"

text \<open>
  The number of days the conversion loop lets through before it stops: the least natural
  number that is at least the day count, and no bound for \<open>NaN\<close> and \<open>Infinity\<close>. The
  output then has as many days as there are dates, up to that bound.
\<close>

fun dayCap :: "ext \<Rightarrow> nat option" where
  "dayCap (Finite x) = Some (nat \<lceil>x\<rceil>)"
| "dayCap PosInfinity = None"
| "dayCap NegInfinity = Some 0"
| "dayCap NaN = None"

definition expectedLength :: "ext \<Rightarrow> nat \<Rightarrow> nat" where
  "expectedLength days' n = (case dayCap days' of None \<Rightarrow> n | Some c \<Rightarrow> min c n)"

definition dateCount :: "ForecastItem list \<Rightarrow> nat" where
  "dateCount list' = length (remdups (map dateOf list'))"

text \<open>How many more days the conversion loop lets through when \<open>done\<close> days are converted
  and \<open>left\<close> dates remain.\<close>

definition allowance :: "ext \<Rightarrow> nat \<Rightarrow> nat \<Rightarrow> nat" where
  "allowance days' done left = (case dayCap days' of None \<Rightarrow> left | Some c \<Rightarrow> c - done)"

text \<open>The aggregate the grouping loop holds for a list of samples of one day.\<close>

definition firstDescription :: "ForecastItem \<Rightarrow> string" where
  "firstDescription item = (case it_weather item of [] \<Rightarrow> [] | w # _ \<Rightarrow> cond_description w)"

definition aggregateOf :: "ForecastItem list \<Rightarrow> DayAggregate" where
  "aggregateOf S =
     \<lparr>temps = map it_main_temp S,
      feelsLike = map it_main_feels_like S,
      humidity = map it_main_humidity S,
      pressure = map it_main_pressure S,
      windSpeed = map (\<lambda>item. fmul (it_wind_speed item) (toDouble 3.6)) S,
      clouds = map it_clouds_all S,
      pop = map (\<lambda>item. fmul (it_pop item) 100) S,
      rain = map rainOf S,
      snow = map snowOf S,
      descriptions = map firstDescription S\<rparr>"

text \<open>What the grouping loop holds after the samples \<open>pre\<close>: the dates of \<open>pre\<close> as keys,
  each once, and under each date the aggregate of that date's samples. For the earlier
  version: the dates of \<open>pre\<close> as keys, each once, every stored day with a temperature.\<close>

definition grouped :: "ForecastItem list \<Rightarrow> (string \<times> DayAggregate) list \<Rightarrow> bool" where
  "grouped pre byDate =
     (distinct (map fst byDate)
      \<and> (\<forall>d. map_of byDate d =
                (if samplesOf pre d = [] then None else Some (aggregateOf (samplesOf pre d)))))"

definition grouped_basic :: "ForecastItem list \<Rightarrow> (string \<times> BasicDayAggregate) list \<Rightarrow> bool" where
  "grouped_basic pre byDate =
     (distinct (map fst byDate)
      \<and> set (map fst byDate) = set (map dateOf pre)
      \<and> list_all (\<lambda>(d, a). basic_temps a \<noteq> []) byDate)"


section \<open>Letter case\<close>

text \<open>
  In Basic Latin the capital letters pair with the small letters in alphabetical order.
  Two code units are case variants of each other when they are equal or are the two
  forms of one letter; the lower-case form of a code unit is the small letter of its pair.
\<close>

definition letterPairs :: "(nat \<times> nat) list" where
  "letterPairs =
     zip (codeUnits ''ABCDEFGHIJKLMNOPQRSTUVWXYZ'') (codeUnits ''abcdefghijklmnopqrstuvwxyz'')"


definition asciiLower :: "nat \<Rightarrow> nat" where
  "asciiLower c = (case map_of letterPairs c of None \<Rightarrow> c | Some l \<Rightarrow> l)"


text \<open>
  \<open>String.prototype.toLowerCase\<close> on strings of Basic Latin characters and Greek letters:
  a Basic Latin capital becomes its small letter, a Greek capital the small letter 32
  code units above it, and a capital sigma becomes the final small sigma when a cased
  letter comes before it and none after it, case-ignorable characters (apostrophe, full
  stop, colon, circumflex, grave) being skipped on both sides.
\<close>

definition isGreekCapital :: "nat \<Rightarrow> bool" where
  "isGreekCapital c = (0x391 \<le> c \<and> c \<le> 0x3A9 \<and> c \<noteq> 0x3A2)"

definition isCased :: "nat \<Rightarrow> bool" where
  "isCased c =
     ((0x41 \<le> c \<and> c \<le> 0x5A) \<or> (0x61 \<le> c \<and> c \<le> 0x7A) \<or> isGreekCapital c
      \<or> (0x3B1 \<le> c \<and> c \<le> 0x3C9))"

definition isCaseIgnorable :: "nat \<Rightarrow> bool" where
  "isCaseIgnorable c = (c \<in> {0x27, 0x2E, 0x3A, 0x5E, 0x60})"

definition nextIsCased :: "ustring \<Rightarrow> bool" where
  "nextIsCased s = (case dropWhile isCaseIgnorable s of [] \<Rightarrow> False | c # _ \<Rightarrow> isCased c)"

definition lowerUnit :: "nat \<Rightarrow> nat" where
  "lowerUnit c = (if isGreekCapital c then c + 32 else asciiLower c)"

fun lowerFrom :: "ustring \<Rightarrow> ustring \<Rightarrow> ustring" where
  "lowerFrom before [] = []"
| "lowerFrom before (c # rest) =
     (if c = 0x3A3
      then (if nextIsCased before \<and> \<not> nextIsCased rest then 0x3C2 else 0x3C3)
      else lowerUnit c) # lowerFrom (c # before) rest"

definition lowerLatinGreek :: "ustring \<Rightarrow> ustring" where
  "lowerLatinGreek s = lowerFrom [] s"


section \<open>Sample inputs\<close>

text \<open>Errors as axios raises them: a response with a status, a refused connection, a
  redirect limit hit before any response, and a connection reset with a 302 response at hand.\<close>

definition axiosStatusError :: "string \<Rightarrow> string \<Rightarrow> int \<Rightarrow> ErrorFields" where
  "axiosStatusError msg c s =
     \<lparr>ErrorFields.message = msg, response = Some \<lparr>status = Some s\<rparr>, code = Some c, request = True\<rparr>"

definition axios404 :: ErrorFields where
  "axios404 = axiosStatusError ''Request failed with status code 404'' ''ERR_BAD_REQUEST'' 404"

definition axios500 :: ErrorFields where
  "axios500 = axiosStatusError ''Request failed with status code 500'' ''ERR_BAD_RESPONSE'' 500"

definition connectionRefused :: ErrorFields where
  "connectionRefused =
     \<lparr>ErrorFields.message = ''connect ECONNREFUSED 127.0.0.1:443'', response = None,
      code = Some ''ECONNREFUSED'', request = True\<rparr>"

definition redirectLimitError :: thrown where
  "redirectLimitError =
     ErrorV \<lparr>ErrorFields.message = ''Maximum number of redirects exceeded'',
             response = None, code = Some ''ERR_FR_TOO_MANY_REDIRECTS'', request = True\<rparr>"

definition resetAfterRedirect :: thrown where
  "resetAfterRedirect =
     ErrorV \<lparr>ErrorFields.message = ''socket hang up'',
             response = Some \<lparr>status = Some 302\<rparr>, code = Some ''ECONNRESET'', request = True\<rparr>"

text \<open>A provider whose upstream gives one answer to every call, a client whose every request
  fails with one error, and a runtime with fixed renderings that lowers Basic Latin and
  Greek.\<close>

definition constProvider :: "(thrown + string Value) \<Rightarrow> string WeatherProvider" where
  "constProvider answer =
     \<lparr>metadata = \<lparr>requiresApiKey = False, supportsForecast = True\<rparr>,
      getCurrentWeatherByCity = (\<lambda>c options. answer),
      getCurrentWeatherByCoords = (\<lambda>c options. answer),
      getForecastByCity = (\<lambda>c options. answer),
      getForecastByCoords = (\<lambda>c options. answer)\<rparr>"

definition failingClient :: "ErrorFields \<Rightarrow> AxiosInstance" where
  "failingClient e = \<lparr>get_weather = (\<lambda>q. Inl (ErrorV e)), get_forecast = (\<lambda>q. Inl (ErrorV e))\<rparr>"

definition fixedPlatform :: JSPlatform where
  "fixedPlatform =
     \<lparr>numberToString = (\<lambda>x. ''0''),
      toFixed = (\<lambda>x n. ''0.0000''),
      toISOString = (\<lambda>x. Some ''2024-01-01T12:00:00.000Z''),
      toLowerCase = lowerLatinGreek\<rparr>"

definition rawOn :: "CurrentWeatherOptions option" where
  "rawOn = Some \<lparr>raw = Some True\<rparr>"

definition orchestrator ::
  "string WeatherProvider \<Rightarrow> ProviderType \<Rightarrow> string WeatherProvider \<Rightarrow> ProviderType
     \<Rightarrow> string Value Cache option \<Rightarrow> string LotusWeather" where
  "orchestrator p pt f ft c =
     \<lparr>primaryProvider = p, fallbackProvider = Some f, cache = c,
      primaryProviderType = pt, fallbackProviderType = Some ft\<rparr>"

definition londonCached :: "string Value Cache" where
  "londonCached =
     \<lparr>store = [codeUnits ''open-meteo:current:london''
                 \<mapsto> \<lparr>entryValue = RawV ''stale'', expiresAt = 1000\<rparr>],
      ttl = DEFAULT_TTL\<rparr>"



text \<open>A current-weather body with a wind of 5 m/s and a gust reported as 0.\<close>

definition calmResponse :: OpenWeatherCurrentResponse where
  "calmResponse =
     \<lparr>ow_weather = [\<lparr>cond_description = ''clear sky''\<rparr>],
      ow_main_temp = 20, ow_main_feels_like = 19, ow_main_pressure = 1013, ow_main_humidity = 40,
      ow_main_sea_level = None, ow_main_grnd_level = None, ow_visibility = 10000,
      ow_wind_speed = 5, ow_wind_deg = 90, ow_wind_gust = Some 0, ow_clouds_all = 0,
      ow_dt = 1704110400, ow_sys_country = ''GB'', ow_sys_sunrise = 1704096000,
      ow_sys_sunset = 1704124800, ow_timezone = 0, ow_name = ''London''\<rparr>"

text \<open>Forecast samples, every number the double of the decimal the upstream sends: one with
  a given time, temperature and rain; a day of eight samples without rain; a day with rain
  in three of its samples; a day whose only sample has 0.04 mm of rain.\<close>

definition sampleItem :: "string \<Rightarrow> real \<Rightarrow> real option \<Rightarrow> ForecastItem" where
  "sampleItem t temp r =
     \<lparr>it_dt_txt = t, it_main_temp = temp, it_main_feels_like = temp - 1,
      it_main_pressure = 1013, it_main_humidity = 60,
      it_weather = [\<lparr>cond_description = ''light rain''\<rparr>],
      it_clouds_all = 75, it_wind_speed = 5, it_pop = toDouble 0.3,
      it_rain_3h = r, it_snow_3h = None\<rparr>"

definition dryDay :: "ForecastItem list" where
  "dryDay =
     [sampleItem ''2024-01-01 00:00:00'' 10 None,
      sampleItem ''2024-01-01 03:00:00'' 12 None,
      sampleItem ''2024-01-01 06:00:00'' 15 None,
      sampleItem ''2024-01-01 09:00:00'' 14 None,
      sampleItem ''2024-01-01 12:00:00'' 13 None,
      sampleItem ''2024-01-01 15:00:00'' 11 None,
      sampleItem ''2024-01-01 18:00:00'' 9 None,
      sampleItem ''2024-01-01 21:00:00'' 8 None]"

definition rainyDay :: "ForecastItem list" where
  "rainyDay =
     [sampleItem ''2024-01-02 00:00:00'' 7 (Some 0.5),
      sampleItem ''2024-01-02 03:00:00'' 6 None,
      sampleItem ''2024-01-02 06:00:00'' 5 (Some 1.25),
      sampleItem ''2024-01-02 09:00:00'' 9 None,
      sampleItem ''2024-01-02 12:00:00'' 12 (Some (toDouble 0.13)),
      sampleItem ''2024-01-02 15:00:00'' 11 None,
      sampleItem ''2024-01-02 18:00:00'' 8 None,
      sampleItem ''2024-01-02 21:00:00'' 6 None]"

definition drizzleDay :: "ForecastItem list" where
  "drizzleDay = [sampleItem ''2024-01-03 00:00:00'' 10 (Some (toDouble 0.04))]"

text \<open>The summaries of the dry and of the rainy day.\<close>

definition dryDaySummary :: ForecastDay where
  "dryDaySummary =
     \<lparr>date = ''2024-01-01'', minTemp = Finite 8, maxTemp = Finite 15,
      description = Some ''light rain'',
      avgFeelsLike = Some 10.5, avgHumidity = Some 60, avgPressure = Some 1013,
      avgWindSpeed = Some 18, avgClouds = Some 75, maxPop = Some (Finite 30),
      totalRain = None, totalSnow = None\<rparr>"

definition rainyDaySummary :: ForecastDay where
  "rainyDaySummary =
     \<lparr>date = ''2024-01-02'', minTemp = Finite 5, maxTemp = Finite 12,
      description = Some ''light rain'',
      avgFeelsLike = Some 7, avgHumidity = Some 60, avgPressure = Some 1013,
      avgWindSpeed = Some 18, avgClouds = Some 75, maxPop = Some (Finite 30),
      totalRain = Some (toDouble 1.9), totalSnow = None\<rparr>"


section \<open>The cache\<close>

text \<open>
  C7. \<open>Cache.get\<close> returns the stored value when the key has an entry and the current time is
  at most its \<open>expiresAt\<close>, leaving the cache as it was; otherwise it returns absent and the
  key has no entry afterwards (nothing else in the cache changes). The function has no
  error result: it is total.
\<close>

theorem Cache_get_live_or_evicted:
  "Cache_get now key c =
     (if (\<exists>entry. store c key = Some entry \<and> now \<le> expiresAt entry)
      then (map_option entryValue (store c key), c)
      else (None, c\<lparr>store := (store c)(key := None)\<rparr>))"
  by (auto simp: Cache_get_def fun_upd_idem split: option.splits)
























section \<open>The error classifier\<close>

text \<open>
  C4, as stated, fails: an axios error for a request that got no response and carries a
  structured code outside the transport list (here the redirect limit) is none of the four
  transient cases of the claim, yet the code classifies it transient. So it does an error
  with a recognised transport code and a response whose status is neither 429 nor 4xx nor 5xx.
\<close>

theorem classifier_claimed_counterexample:
  "isTransientError redirectLimitError \<and> classifier_claimed redirectLimitError = Permanent
   \<and> isTransientError resetAfterRedirect \<and> classifier_claimed resetAfterRedirect = Permanent"
  by (simp add: isTransientError_def classifier_claimed_def responseVerdict_def codeVerdict_def
      redirectLimitError_def resetAfterRedirect_def transientCodes_def)

text \<open>
  C4, amended. A response with status 429 or 5xx is transient; a response with any other
  4xx status is permanent; otherwise a recognised transport code (connection refused or
  reset, timeout, DNS failure, network unreachable) is transient, with or without a
  response; otherwise a request that was sent and got no response is transient, with or
  without a structured code; everything else, a \<open>WeatherError\<close> included, is permanent.
\<close>

theorem isTransientError_classification:
  "isTransientError error = (classifier_amended error = Transient)"
  by (auto simp: isTransientError_def classifier_amended_def responseVerdict_def codeVerdict_def
      split: option.splits)


section \<open>Fallback\<close>

text \<open>The calls \<open>executeWithFallback\<close> makes, case by case.\<close>

lemma executeWithFallback_unfold:
  "executeWithFallback this operation providerName =
     (case operation (primaryProvider this) of
        Inr v \<Rightarrow> (Inr v, [Primary])
      | Inl error \<Rightarrow>
          (case fallbackProvider this of
             None \<Rightarrow> (Inl (wrapError error providerName), [Primary])
           | Some fb \<Rightarrow>
               if \<not> isTransientError error
               then (Inl (wrapError error providerName), [Primary])
               else
                 (case operation fb of
                    Inr v \<Rightarrow> (Inr v, [Primary, Fallback])
                  | Inl fallbackError \<Rightarrow>
                      (Inl (wrapError error providerName), [Primary, Fallback]))))"
  by (simp add: executeWithFallback_def invoke_def split: sum.splits option.splits)

lemma executeWithFallback_cache_irrelevant:
  "executeWithFallback (this\<lparr>cache := c\<rparr>) operation providerName =
   executeWithFallback this operation providerName"
  by (simp add: executeWithFallback_unfold split: sum.splits)

text \<open>
  C2. When the primary provider fails with a transient error and a fallback provider is
  configured, the operation is invoked on the primary and then on the fallback, once each,
  and the caller gets what that one call on the fallback gave: its value if it succeeded,
  and the wrapped error of the primary if it failed too.
\<close>

theorem fallback_once_then_primary_error:
  assumes "fallbackProvider this = Some fb"
      and "operation (primaryProvider this) = Inl error"
      and "isTransientError error"
  shows "executeWithFallback this operation providerName =
           ((case operation fb of
               Inr v \<Rightarrow> Inr v
             | Inl fallbackError \<Rightarrow> Inl (wrapError error providerName)),
            [Primary, Fallback])
       \<and> snd (executeWithFallback this operation providerName) = [Primary, Fallback]
       \<and> count_list (snd (executeWithFallback this operation providerName)) Fallback = 1
       \<and> (\<forall>fallbackError. operation fb = Inl fallbackError \<longrightarrow>
            fst (executeWithFallback this operation providerName)
              = Inl (wrapError error providerName))"
  using assms by (auto simp: executeWithFallback_def invoke_def split: sum.splits)

theorem fallback_once_then_primary_error_witness:
  "fallbackProvider (orchestrator (constProvider (Inl (ErrorV axios500))) open_meteo
       (constProvider (Inl (ErrorV connectionRefused))) openweather None)
     = Some (constProvider (Inl (ErrorV connectionRefused)))
   \<and> isTransientError (ErrorV axios500)
   \<and> executeWithFallback
        (orchestrator (constProvider (Inl (ErrorV axios500))) open_meteo
           (constProvider (Inl (ErrorV connectionRefused))) openweather None)
        (\<lambda>provider. getCurrentWeatherByCity provider (codeUnits ''London'') None)
        ''getCurrentWeather''
      = (Inl \<lparr>WeatherError.message = ''Provider service unavailable'', cause = Some axios500\<rparr>,
         [Primary, Fallback])
   \<and> executeWithFallback
        (orchestrator (constProvider (Inl (ErrorV axios500))) open_meteo
           (constProvider (Inr (RawV ''body''))) openweather None)
        (\<lambda>provider. getCurrentWeatherByCity provider (codeUnits ''London'') None)
        ''getCurrentWeather''
      = (Inr (RawV ''body''), [Primary, Fallback])"
proof -
  let ?fb = "constProvider (Inl (ErrorV connectionRefused))"
  let ?ok = "constProvider (Inr (RawV ''body''))"
  let ?lw = "orchestrator (constProvider (Inl (ErrorV axios500))) open_meteo ?fb openweather None"
  let ?lw2 = "orchestrator (constProvider (Inl (ErrorV axios500))) open_meteo ?ok openweather None"
  let ?op = "\<lambda>provider :: string WeatherProvider.
               getCurrentWeatherByCity provider (codeUnits ''London'') None"
  have h1: "fallbackProvider ?lw = Some ?fb" and h1': "fallbackProvider ?lw2 = Some ?ok"
    by (simp_all add: orchestrator_def)
  have h2: "?op (primaryProvider ?lw) = Inl (ErrorV axios500)"
    and h2': "?op (primaryProvider ?lw2) = Inl (ErrorV axios500)"
    by (simp_all add: orchestrator_def constProvider_def)
  have h3: "isTransientError (ErrorV axios500)"
    by (simp add: isTransientError_def responseVerdict_def axios500_def axiosStatusError_def)
  have h4: "?op ?fb = Inl (ErrorV connectionRefused)" and h4': "?op ?ok = Inr (RawV ''body'')"
    by (simp_all add: constProvider_def)
  have w: "wrapError (ErrorV axios500) ''getCurrentWeather''
             = \<lparr>WeatherError.message = ''Provider service unavailable'', cause = Some axios500\<rparr>"
    by (simp add: wrapError_def includes_str_def axios500_def axiosStatusError_def) code_simp
  from fallback_once_then_primary_error
         [of ?lw ?fb ?op "ErrorV axios500" "''getCurrentWeather''", OF h1 h2 h3]
  have a: "executeWithFallback ?lw ?op ''getCurrentWeather''
           = (Inl (wrapError (ErrorV axios500) ''getCurrentWeather''), [Primary, Fallback])"
    by (simp only: h4 sum.case)
  from fallback_once_then_primary_error
         [of ?lw2 ?ok ?op "ErrorV axios500" "''getCurrentWeather''", OF h1' h2' h3]
  have b: "executeWithFallback ?lw2 ?op ''getCurrentWeather''
           = (Inr (RawV ''body''), [Primary, Fallback])"
    by (simp only: h4' sum.case)
  from a b w h1 h3 show ?thesis by simp
qed

lemma not_found_stops_at_primary:
  assumes "operation (primaryProvider this) = Inl (ErrorV e)"
      and "response e = Some r" and "status r = Some 404"
  shows "executeWithFallback this operation providerName =
           (Inl \<lparr>WeatherError.message =
                    (if includes_str (ErrorFields.message e) ''City not found''
                     then ErrorFields.message e else ''City not found''),
                 cause = Some e\<rparr>, [Primary])"
  using assms
  by (simp add: executeWithFallback_unfold isTransientError_def responseVerdict_def wrapError_def
      split: option.splits)

lemma axios404_message_has_no_marker:
  "\<not> includes_str ''Request failed with status code 404'' ''City not found''"
  unfolding includes_str_def by code_simp

text \<open>
  C3. With a fallback configured, a primary failure with status 404 never reaches the
  fallback, but the message raised is the bare \<open>"City not found"\<close>: the city the caller
  asked for is not in it. Here the primary is the OpenWeather provider, whose client
  answers 404 for the city \<open>"Atlantis"\<close>.
\<close>

theorem not_found_message_has_no_city:
  "getCurrentWeather fixedPlatform
     (orchestrator (OpenWeatherProvider fixedPlatform (failingClient axios404)) openweather
        (constProvider (Inr (RawV ''body''))) open_meteo None)
     0 0 (codeUnits ''Atlantis'') None
   = (Inl \<lparr>WeatherError.message = ''City not found'', cause = Some axios404\<rparr>, [Primary],
      orchestrator (OpenWeatherProvider fixedPlatform (failingClient axios404)) openweather
        (constProvider (Inr (RawV ''body''))) open_meteo None)
   \<and> ''City not found'' \<noteq> ''City not found: Atlantis''"
proof -
  let ?lw = "orchestrator (OpenWeatherProvider fixedPlatform (failingClient axios404)) openweather
        (constProvider (Inr (RawV ''body''))) open_meteo None"
  let ?op = "\<lambda>provider :: string WeatherProvider.
               getCurrentWeatherByCity provider (codeUnits ''Atlantis'') None"
  have op: "?op (primaryProvider ?lw) = Inl (ErrorV axios404)"
    by (simp add: orchestrator_def OpenWeatherProvider_def
        OpenWeatherProvider_getCurrentWeatherByCity_def failingClient_def)
  have msg: "ErrorFields.message axios404 = ''Request failed with status code 404''"
    by (simp add: axios404_def axiosStatusError_def)
  have "executeWithFallback ?lw ?op ''getCurrentWeather''
        = (Inl \<lparr>WeatherError.message = ''City not found'', cause = Some axios404\<rparr>, [Primary])"
    using not_found_stops_at_primary [of ?op ?lw axios404 "\<lparr>status = Some 404\<rparr>"
        "''getCurrentWeather''", OF op] axios404_message_has_no_marker
    by (simp add: msg) (simp add: axios404_def axiosStatusError_def)
  moreover have "cache ?lw = None" by (simp add: orchestrator_def)
  ultimately show ?thesis
    by (simp add: getCurrentWeather_def rawRequested_def lookupThenFetch_def fetchAndStore_def)
qed


section \<open>Raw mode\<close>

text \<open>
  C8. A current-weather request with \<open>options.raw\<close> set, by city or by coordinates, leaves
  the orchestrator and its cache as they were, and returns what the fallback-aware fetch
  returns whatever the cache is (\<open>c\<close> is any cache, or none): nothing is read from it
  and nothing is stored in it.
\<close>

theorem raw_requests_bypass_cache:
  assumes "rawRequested options"
  shows "(case getCurrentWeather P this tLookup tStore city' options of
            (r, calls, this') \<Rightarrow>
               this' = this
             \<and> (r, calls) = executeWithFallback (this\<lparr>cache := c\<rparr>)
                    (\<lambda>provider. getCurrentWeatherByCity provider city' options)
                    ''getCurrentWeather'')
       \<and> (case getWeatherByCoords P this tLookup tStore lat lon options of
            (r, calls, this') \<Rightarrow>
               this' = this
             \<and> (r, calls) = executeWithFallback (this\<lparr>cache := c\<rparr>)
                    (\<lambda>provider. getCurrentWeatherByCoords provider
                                   \<lparr>latitude = lat, longitude = lon\<rparr> options)
                    ''getWeatherByCoords'')"
  using assms
  by (simp add: getCurrentWeather_def getWeatherByCoords_def executeWithFallback_cache_irrelevant
      split: prod.splits)

theorem raw_requests_bypass_cache_witness:
  "rawRequested rawOn
   \<and> getCurrentWeather fixedPlatform
        (orchestrator (constProvider (Inr (RawV ''fresh''))) open_meteo
           (constProvider (Inl (ErrorV axios500))) openweather (Some londonCached))
        0 0 (codeUnits ''London'') rawOn
      = (Inr (RawV ''fresh''), [Primary],
         orchestrator (constProvider (Inr (RawV ''fresh''))) open_meteo
           (constProvider (Inl (ErrorV axios500))) openweather (Some londonCached))"
proof -
  let ?lw = "orchestrator (constProvider (Inr (RawV ''fresh''))) open_meteo
           (constProvider (Inl (ErrorV axios500))) openweather (Some londonCached)"
  have h: "rawRequested rawOn" by (simp add: rawRequested_def rawOn_def)
  have e: "executeWithFallback (?lw\<lparr>cache := None\<rparr>)
             (\<lambda>provider. getCurrentWeatherByCity provider (codeUnits ''London'') rawOn)
             ''getCurrentWeather''
           = (Inr (RawV ''fresh''), [Primary])"
    by (simp add: executeWithFallback_unfold orchestrator_def constProvider_def)
  from raw_requests_bypass_cache
         [where options = rawOn and this = ?lw and tLookup = 0 and tStore = 0
            and city' = "codeUnits ''London''" and c = None and P = fixedPlatform, OF h] e h
  show ?thesis by (auto split: prod.splits)
qed

lemma raw_mode_rejected_after_response:
  assumes "rawRequested options" and "get_weather client (ByCity city') = Inr data"
  shows "OpenWeatherProvider_getCurrentWeatherByCity P client city' options = Inl rawModeError"
  using assms by (simp add: OpenWeatherProvider_getCurrentWeatherByCity_def)

text \<open>
  C1. The OpenWeather provider rejects raw mode only after the upstream call has returned:
  when the connection is refused, a raw request by city or by coordinates fails with the
  network error, not with the usage error. That error is transient, so an orchestrator
  with a fallback goes on to the fallback and the raw request succeeds.
\<close>

theorem raw_mode_error_preempted_by_network_failure:
  "OpenWeatherProvider_getCurrentWeatherByCity fixedPlatform (failingClient connectionRefused)
       (codeUnits ''London'') rawOn = (Inl (ErrorV connectionRefused) :: thrown + string Value)
   \<and> OpenWeatherProvider_getCurrentWeatherByCoords fixedPlatform (failingClient connectionRefused)
       \<lparr>latitude = 51.5, longitude = - 0.12\<rparr> rawOn = (Inl (ErrorV connectionRefused) :: thrown + string Value)
   \<and> ErrorV connectionRefused \<noteq> rawModeError
   \<and> fst (getCurrentWeather fixedPlatform
        (orchestrator (OpenWeatherProvider fixedPlatform (failingClient connectionRefused)) openweather
           (constProvider (Inr (RawV ''body''))) open_meteo None)
        0 0 (codeUnits ''London'') rawOn)
      = Inr (RawV ''body'')"
  by (simp add: OpenWeatherProvider_getCurrentWeatherByCity_def
      OpenWeatherProvider_getCurrentWeatherByCoords_def failingClient_def rawModeError_def
      plainError_def connectionRefused_def getCurrentWeather_def rawOn_def rawRequested_def
      executeWithFallback_unfold orchestrator_def OpenWeatherProvider_def constProvider_def
      isTransientError_def responseVerdict_def codeVerdict_def transientCodes_def)


section \<open>Normalisation of the OpenWeather current weather\<close>

lemma gust_chain:
  "(if truthyOptNumber (if truthyOptNumber og then map_option f og else None)
    then map_option h (if truthyOptNumber og then map_option f og else None)
    else None)
   = (case og of None \<Rightarrow> None | Some g \<Rightarrow> if g = 0 \<or> f g = 0 then None else Some (h (f g)))"
  by (cases og) (auto simp: truthyOptNumber_def truthyNumber_def)

lemma mapToCurrentWeather_wind:
  assumes "mapToCurrentWeather P data = Inr cw"
  shows "CurrentWeather.windSpeed cw
           = round1_64 (fmul (ow_wind_speed data) (toDouble 3.6))
       \<and> windGust cw =
           (case ow_wind_gust data of
              None \<Rightarrow> None
            | Some g \<Rightarrow>
                if g = 0 \<or> fmul g (toDouble 3.6) = 0 then None
                else Some (round1_64 (fmul g (toDouble 3.6))))"
  using assms
  unfolding mapToCurrentWeather_def Let_def gust_chain round1_64_def
  by (auto split: list.splits option.splits)

lemma wind_5_kmh: "fmul 5 (toDouble 3.6) = 18"
  by code_simp

lemma round_18: "fdiv (Math_round (fmul 18 10)) 10 = 18"
  by code_simp

text \<open>
  C6. An upstream speed of 5 m/s becomes a \<open>windSpeed\<close> of 18 km/h, but a gust the
  upstream reports as 0 is dropped: \<open>windGust\<close> is absent, not 0.
\<close>

theorem zero_gust_is_dropped:
  "map_sum id (\<lambda>cw. (CurrentWeather.windSpeed cw, windGust cw))
     (mapToCurrentWeather fixedPlatform calmResponse) = Inr (18, None)
   \<and> ow_wind_speed calmResponse = 5 \<and> ow_wind_gust calmResponse = Some 0"
  using wind_5_kmh round_18
  by (simp add: mapToCurrentWeather_def Let_def truthyOptNumber_def truthyNumber_def
      calmResponse_def fixedPlatform_def formatTime_def)


section \<open>The daily summaries\<close>

lemma samplesOf_snoc:
  "samplesOf (pre @ [item]) d = samplesOf pre d @ (if dateOf item = d then [item] else [])"
  by (simp add: samplesOf_def)

lemma aggregateOf_Nil: "aggregateOf [] = emptyAggregate"
  by (simp add: aggregateOf_def emptyAggregate_def)

lemma grouped_lookup:
  "grouped pre byDate \<Longrightarrow>
     (case map_of byDate d of None \<Rightarrow> emptyAggregate | Some a \<Rightarrow> a) = aggregateOf (samplesOf pre d)"
  by (simp add: grouped_def aggregateOf_Nil)

lemma addItem_fails: "it_weather item = [] \<Longrightarrow> addItem item byDate = Inl TypeError_reading_description"
  by (simp add: addItem_def Let_def)

lemma addItem_grouped:
  assumes "grouped pre byDate" and "it_weather item = w # ws"
  shows "addItem item byDate =
           Inr (AList.update (dateOf item) (aggregateOf (samplesOf pre (dateOf item) @ [item])) byDate)"
proof -
  have "(case map_of byDate (splitSpaceFirst (it_dt_txt item)) of
           None \<Rightarrow> emptyAggregate | Some a \<Rightarrow> a)
        = aggregateOf (samplesOf pre (dateOf item))"
    using grouped_lookup [OF assms(1), of "dateOf item"] by (simp add: dateOf_def)
  then show ?thesis
    using assms(2)
    by (simp add: addItem_def Let_def dateOf_def aggregateOf_def nullish_def rainOf_def snowOf_def
        firstDescription_def)
qed

lemma grouped_step:
  assumes "grouped pre byDate"
  shows "grouped (pre @ [item])
           (AList.update (dateOf item) (aggregateOf (samplesOf pre (dateOf item) @ [item])) byDate)"
  using assms
  by (auto simp: grouped_def distinct_update update_conv' samplesOf_snoc)

lemma groupByDate_grouped:
  "grouped pre byDate \<Longrightarrow> groupByDate items byDate = Inr res \<Longrightarrow> grouped (pre @ items) res"
proof (induction items arbitrary: pre byDate)
  case Nil
  then show ?case by simp
next
  case (Cons item rest)
  show ?case
  proof (cases "it_weather item")
    case Nil
    with Cons.prems(2) show ?thesis by (simp add: addItem_fails)
  next
    case (Cons w ws)
    let ?b = "AList.update (dateOf item) (aggregateOf (samplesOf pre (dateOf item) @ [item])) byDate"
    have "groupByDate rest ?b = Inr res"
      using Cons.prems(2) addItem_grouped [OF Cons.prems(1) Cons] by simp
    from Cons.IH [OF grouped_step [OF Cons.prems(1)] this] show ?thesis by simp
  qed
qed

lemma groupByDate_returns:
  "grouped pre byDate \<Longrightarrow> \<forall>item\<in>set items. it_weather item \<noteq> [] \<Longrightarrow>
     \<exists>res. groupByDate items byDate = Inr res"
proof (induction items arbitrary: pre byDate)
  case Nil
  then show ?case by simp
next
  case (Cons item rest)
  then obtain w ws where w: "it_weather item = w # ws" by (cases "it_weather item") auto
  from Cons.IH [OF grouped_step [OF Cons.prems(1)]] Cons.prems(2)
  show ?case by (simp add: addItem_grouped [OF Cons.prems(1) w])
qed

lemma grouped_Nil: "grouped [] []"
  by (simp add: grouped_def samplesOf_def)

text \<open>The conversion loop stops at the cap of the day count.\<close>

lemma lengthAtLeast_dayCap:
  "lengthAtLeast n days' = (case dayCap days' of None \<Rightarrow> False | Some c \<Rightarrow> c \<le> n)"
proof (cases days')
  case (Finite x)
  have "(nat \<lceil>x\<rceil> \<le> n) = (\<lceil>x\<rceil> \<le> int n)" by (simp add: nat_le_iff)
  also have "\<dots> = (x \<le> real n)" by (simp add: ceiling_le_iff)
  finally show ?thesis using Finite by simp
qed simp_all

lemma convertDays_take:
  "convertDays days' rest result =
     result @ map (\<lambda>(d, a). toForecastDay d a)
                (take (allowance days' (length result) (length rest)) rest)"
proof (induction rest arbitrary: result)
  case Nil
  then show ?case by simp
next
  case (Cons p rest)
  obtain d a where p: "p = (d, a)" by (cases p)
  show ?case
  proof (cases "lengthAtLeast (length result) days'")
    case True
    then show ?thesis
      by (auto simp: p lengthAtLeast_dayCap allowance_def split: option.splits)
  next
    case False
    then have "allowance days' (length result) (length (p # rest))
                 = Suc (allowance days' (Suc (length result)) (length rest))"
      by (auto simp: lengthAtLeast_dayCap allowance_def split: option.splits)
    then show ?thesis using False by (simp add: p Cons.IH)
  qed
qed

lemma convertDays_basic_take:
  "convertDays_basic days' rest result =
     result @ map (\<lambda>(d, a). toForecastDay_basic d a)
                (take (allowance days' (length result) (length rest)) rest)"
proof (induction rest arbitrary: result)
  case Nil
  then show ?case by simp
next
  case (Cons p rest)
  obtain d a where p: "p = (d, a)" by (cases p)
  show ?case
  proof (cases "lengthAtLeast (length result) days'")
    case True
    then show ?thesis
      by (auto simp: p lengthAtLeast_dayCap allowance_def split: option.splits)
  next
    case False
    then have "allowance days' (length result) (length (p # rest))
                 = Suc (allowance days' (Suc (length result)) (length rest))"
      by (auto simp: lengthAtLeast_dayCap allowance_def split: option.splits)
    then show ?thesis using False by (simp add: p Cons.IH)
  qed
qed

lemma length_take_allowance:
  "length (take (allowance days' 0 (length xs)) xs) = expectedLength days' (length xs)"
  by (simp add: allowance_def expectedLength_def min.commute split: option.splits)

lemma grouped_length:
  assumes "grouped list' byDate"
  shows "length byDate = dateCount list'"
proof -
  from assms have d: "distinct (map fst byDate)" by (simp add: grouped_def)
  have "set (map fst byDate) = dom (map_of byDate)"
    by (simp add: dom_map_of_conv_image_fst)
  also have "\<dots> = {d. samplesOf list' d \<noteq> []}"
    using assms by (auto simp: grouped_def dom_def)
  also have "\<dots> = set (map dateOf list')"
    by (auto simp: samplesOf_def filter_empty_conv)
  finally have "card (set (map fst byDate)) = card (set (map dateOf list'))" by simp
  with distinct_card [OF d] show ?thesis
    by (simp add: dateCount_def length_remdups_card_conv)
qed

lemma aggregateForecast_shape:
  assumes "aggregateForecast list' days' = Inr out"
  obtains byDate where "grouped list' byDate"
    and "out = map (\<lambda>(d, a). toForecastDay d a) (take (allowance days' 0 (length byDate)) byDate)"
proof -
  from assms obtain byDate where g: "groupByDate list' [] = Inr byDate"
    and o: "out = convertDays days' byDate []"
    by (auto simp: aggregateForecast_def split: sum.splits)
  from groupByDate_grouped [OF grouped_Nil g] have "grouped list' byDate" by simp
  moreover from o
  have "out = map (\<lambda>(d, a). toForecastDay d a) (take (allowance days' 0 (length byDate)) byDate)"
    by (simp add: convertDays_take)
  ultimately show ?thesis by (rule that)
qed

lemma aggregateForecast_returns:
  "\<forall>item\<in>set list'. it_weather item \<noteq> [] \<Longrightarrow> \<exists>out. aggregateForecast list' days' = Inr out"
  using groupByDate_returns [OF grouped_Nil, of list']
  by (auto simp: aggregateForecast_def)

lemma date_toForecastDay: "date (toForecastDay d a) = d"
  by (simp add: toForecastDay_def Let_def)

lemma aggregateForecast_entry:
  assumes "aggregateForecast list' days' = Inr out" and "d \<in> set out"
  shows "samplesOf list' (date d) \<noteq> []
       \<and> d = toForecastDay (date d) (aggregateOf (samplesOf list' (date d)))"
proof -
  from assms(1) obtain byDate where g: "grouped list' byDate"
    and o: "out = map (\<lambda>(d, a). toForecastDay d a) (take (allowance days' 0 (length byDate)) byDate)"
    by (rule aggregateForecast_shape)
  from assms(2) o obtain dt a where m: "(dt, a) \<in> set byDate" and d: "d = toForecastDay dt a"
    by (auto dest: in_set_takeD)
  from g have "distinct (map fst byDate)" by (simp add: grouped_def)
  from map_of_is_SomeI [OF this m] have "map_of byDate dt = Some a" .
  with g have "samplesOf list' dt \<noteq> []" and "a = aggregateOf (samplesOf list' dt)"
    by (auto simp: grouped_def split: if_splits)
  with d show ?thesis by (simp add: date_toForecastDay)
qed

lemma avg_mean64: "xs \<noteq> [] \<Longrightarrow> avg xs = round1_64 (mean64 xs)"
  by (simp add: avg_def round1_64_def mean64_def sum64_def)

lemma sum_arr_round1_64: "sum_arr xs = round1_64 (sum64 xs)"
  by (simp add: sum_arr_def round1_64_def sum64_def)

lemma Math_min_Min: "xs \<noteq> [] \<Longrightarrow> Math_min xs = Finite (Min (set xs))"
proof (cases xs)
  case Nil
  assume "xs \<noteq> []"
  with Nil show ?thesis by simp
next
  case (Cons a r)
  then show ?thesis using Min.set_eq_fold [of a r] by (simp add: Math_min_def)
qed

lemma Math_max_Max: "xs \<noteq> [] \<Longrightarrow> Math_max xs = Finite (Max (set xs))"
proof (cases xs)
  case Nil
  assume "xs \<noteq> []"
  with Nil show ?thesis by simp
next
  case (Cons a r)
  then show ?thesis using Max.set_eq_fold [of a r] by (simp add: Math_max_def)
qed

lemma toForecastDay_fields:
  assumes "S \<noteq> []"
  shows "minTemp (toForecastDay dt (aggregateOf S)) = Finite (Min (set (map it_main_temp S)))"
    and "maxTemp (toForecastDay dt (aggregateOf S)) = Finite (Max (set (map it_main_temp S)))"
    and "avgFeelsLike (toForecastDay dt (aggregateOf S))
           = Some (round1_64 (mean64 (map it_main_feels_like S)))"
    and "avgHumidity (toForecastDay dt (aggregateOf S))
           = Some (round1_64 (mean64 (map it_main_humidity S)))"
    and "avgPressure (toForecastDay dt (aggregateOf S))
           = Some (round1_64 (mean64 (map it_main_pressure S)))"
    and "avgWindSpeed (toForecastDay dt (aggregateOf S))
           = Some (round1_64 (mean64 (map (\<lambda>item. fmul (it_wind_speed item) (toDouble 3.6)) S)))"
    and "avgClouds (toForecastDay dt (aggregateOf S))
           = Some (round1_64 (mean64 (map it_clouds_all S)))"
    and "maxPop (toForecastDay dt (aggregateOf S))
           = Some (Finite (Math_round (Max (set (map (\<lambda>item. fmul (it_pop item) 100) S)))))"
    and "totalRain (toForecastDay dt (aggregateOf S)) = total_amended (map rainOf S)"
    and "totalSnow (toForecastDay dt (aggregateOf S)) = total_amended (map snowOf S)"
  using assms
  by (simp_all add: toForecastDay_def Let_def aggregateOf_def Math_min_Min Math_max_Max avg_mean64
      sum_arr_round1_64 total_amended_def)

text \<open>The numbers of the sample days, evaluated in double precision.\<close>

lemma pop_30: "fmul (toDouble 0.3) 100 = 30"
  by code_simp

lemma avg_dry_feels: "avg [9, 11, 14, 13, 12, 10, 8, 7] = 10.5"
  by code_simp

lemma avg_rainy_feels: "avg [6, 5, 4, 8, 11, 10, 7, 5] = 7"
  by code_simp

lemma avg_humidity_60: "avg [60, 60, 60, 60, 60, 60, 60, 60] = 60"
  by code_simp

lemma avg_pressure_1013: "avg [1013, 1013, 1013, 1013, 1013, 1013, 1013, 1013] = 1013"
  by code_simp

lemma avg_wind_18: "avg [18, 18, 18, 18, 18, 18, 18, 18] = 18"
  by code_simp

lemma avg_clouds_75: "avg [75, 75, 75, 75, 75, 75, 75, 75] = 75"
  by code_simp

lemma sum_dry: "sum_arr [0, 0, 0, 0, 0, 0, 0, 0] = 0"
  by code_simp

lemma sum_rainy: "sum_arr [0.5, 0, 1.25, 0, toDouble 0.13, 0, 0, 0] = toDouble 1.9"
  by code_simp

lemma double_19_positive: "toDouble 1.9 > 0"
  by code_simp

lemma sum_drizzle: "sum_arr [toDouble 0.04] = 0"
  by code_simp

lemma drizzle_positive: "toDouble 0.04 > 0"
  by code_simp

lemma round1_drizzle: "round1 (toDouble 0.04) = 0"
  by code_simp

text \<open>Roundings that exact arithmetic on the decimals would give otherwise (5.5, 0.7, 0.1,
  29 and, on the double of 0.15 itself, 0.1).\<close>

lemma double_precision_roundings:
  "avg [toDouble 5.1, toDouble 5.8] = toDouble 5.4"
  "sum_arr [toDouble 0.06, toDouble 0.59] = toDouble 0.6"
  "sum_arr [toDouble 0.013, toDouble 0.037] = 0"
  "Math_round (fmul (toDouble 0.285) 100) = 28"
  "sum_arr [toDouble 0.15] = toDouble 0.2"
  by code_simp+

lemma dryDay_rain: "map rainOf dryDay = [0, 0, 0, 0, 0, 0, 0, 0]"
  by (simp add: dryDay_def sampleItem_def rainOf_def)

lemma rainyDay_rain: "map rainOf rainyDay = [0.5, 0, 1.25, 0, toDouble 0.13, 0, 0, 0]"
  by (simp add: rainyDay_def sampleItem_def rainOf_def)

lemma drizzleDay_rain: "map rainOf drizzleDay = [toDouble 0.04]"
  by (simp add: drizzleDay_def sampleItem_def rainOf_def)

lemma twoDays_grouping:
  "groupByDate (dryDay @ rainyDay) [] =
     Inr [(''2024-01-01'', aggregateOf dryDay), (''2024-01-02'', aggregateOf rainyDay)]"
  by (simp add: dryDay_def rainyDay_def sampleItem_def addItem_def Let_def splitSpaceFirst_def
      emptyAggregate_def nullish_def aggregateOf_def rainOf_def snowOf_def firstDescription_def)

lemma drizzleDay_grouping:
  "groupByDate drizzleDay [] = Inr [(''2024-01-03'', aggregateOf drizzleDay)]"
  by (simp add: drizzleDay_def sampleItem_def addItem_def Let_def splitSpaceFirst_def
      emptyAggregate_def nullish_def aggregateOf_def rainOf_def snowOf_def firstDescription_def)

lemma threeDays_grouping:
  "groupByDate (dryDay @ rainyDay @ drizzleDay) [] =
     Inr [(''2024-01-01'', aggregateOf dryDay), (''2024-01-02'', aggregateOf rainyDay),
          (''2024-01-03'', aggregateOf drizzleDay)]"
  by (simp add: dryDay_def rainyDay_def drizzleDay_def sampleItem_def addItem_def Let_def
      splitSpaceFirst_def emptyAggregate_def nullish_def aggregateOf_def rainOf_def snowOf_def
      firstDescription_def)

lemma dryDay_summary: "toForecastDay ''2024-01-01'' (aggregateOf dryDay) = dryDaySummary"
  using wind_5_kmh pop_30 avg_dry_feels avg_humidity_60 avg_pressure_1013 avg_wind_18
    avg_clouds_75 sum_dry
  by (simp add: toForecastDay_def Let_def aggregateOf_def dryDay_def sampleItem_def rainOf_def
      snowOf_def firstDescription_def Math_round_def Math_min_def Math_max_def
      getMostFrequent_def nullish_def dryDaySummary_def)

lemma rainyDay_summary: "toForecastDay ''2024-01-02'' (aggregateOf rainyDay) = rainyDaySummary"
  using wind_5_kmh pop_30 avg_rainy_feels avg_humidity_60 avg_pressure_1013 avg_wind_18
    avg_clouds_75 sum_dry sum_rainy double_19_positive
  by (simp add: toForecastDay_def Let_def aggregateOf_def rainyDay_def sampleItem_def rainOf_def
      snowOf_def firstDescription_def Math_round_def Math_min_def Math_max_def
      getMostFrequent_def nullish_def rainyDaySummary_def)

lemma twoDays_aggregated:
  "aggregateForecast (dryDay @ rainyDay) (Finite 5) = Inr [dryDaySummary, rainyDaySummary]"
  by (simp add: aggregateForecast_def twoDays_grouping dryDay_summary rainyDay_summary)

lemma twoDays_first_only:
  "aggregateForecast (dryDay @ rainyDay) (Finite 1) = Inr [dryDaySummary]"
  by (simp add: aggregateForecast_def twoDays_grouping dryDay_summary rainyDay_summary)

lemma twoDays_samples:
  "samplesOf (dryDay @ rainyDay) ''2024-01-01'' = dryDay"
  "samplesOf (dryDay @ rainyDay) ''2024-01-02'' = rainyDay"
  by (simp_all add: samplesOf_def dateOf_def splitSpaceFirst_def dryDay_def rainyDay_def
      sampleItem_def)

lemma twoDays_dateCount: "dateCount (dryDay @ rainyDay) = 2"
  by (simp add: dateCount_def dateOf_def splitSpaceFirst_def dryDay_def rainyDay_def
      sampleItem_def)

text \<open>
  C5, as stated, fails on the totals: a day whose only sample has 0.04 mm of rain has a sum
  above 0, so the claim has \<open>totalRain\<close> there (with the value 0), but the code tests the
  rounded sum and leaves \<open>totalRain\<close> out.
\<close>

theorem total_rain_claimed_counterexample:
  "map_sum id (map date) (aggregateForecast drizzleDay (Finite 5)) = Inr [''2024-01-03'']
   \<and> map_sum id (map totalRain) (aggregateForecast drizzleDay (Finite 5)) = Inr [None]
   \<and> samplesOf drizzleDay ''2024-01-03'' = drizzleDay
   \<and> map rainOf drizzleDay = [toDouble 0.04]
   \<and> sum_list (map rainOf drizzleDay) > 0
   \<and> total_claimed (map rainOf drizzleDay) = Some 0"
proof -
  have d: "aggregateForecast drizzleDay (Finite 5)
             = Inr [toForecastDay ''2024-01-03'' (aggregateOf drizzleDay)]"
    by (simp add: aggregateForecast_def drizzleDay_grouping)
  have 1: "map_sum id (map date) (aggregateForecast drizzleDay (Finite 5)) = Inr [''2024-01-03'']"
    by (simp add: d date_toForecastDay)
  have 2: "map_sum id (map totalRain) (aggregateForecast drizzleDay (Finite 5)) = Inr [None]"
    using sum_drizzle
    by (simp add: d toForecastDay_def Let_def aggregateOf_def drizzleDay_rain)
  have 3: "samplesOf drizzleDay ''2024-01-03'' = drizzleDay"
    by (simp add: samplesOf_def dateOf_def splitSpaceFirst_def drizzleDay_def sampleItem_def)
  have 5: "sum_list (map rainOf drizzleDay) > 0"
    using drizzle_positive by (simp add: drizzleDay_rain)
  have 6: "total_claimed (map rainOf drizzleDay) = Some 0"
    using drizzle_positive round1_drizzle by (simp add: total_claimed_def drizzleDay_rain)
  from 1 2 3 drizzleDay_rain 5 6 show ?thesis by simp
qed

text \<open>
  C5, amended. Every forecast day the OpenWeather aggregation returns is built from the
  samples of its date, of which there is at least one: \<open>minTemp\<close> and \<open>maxTemp\<close> are the
  minimum and maximum of their temperatures; each average is the mean of the per-sample
  values (for the wind, the speeds in km/h), the sum and the division being those of
  double precision, rounded to 1 decimal the way the code does it (times 10, nearest
  integer, divided by 10); \<open>maxPop\<close> is the largest of the probabilities times 100,
  rounded to the nearest integer; \<open>totalRain\<close> and \<open>totalSnow\<close> are the double-precision
  sums of the accumulations rounded the same way, there when the rounded sum is above 0
  and absent otherwise.
\<close>

theorem daily_summary_of_samples:
  assumes "aggregateForecast list' days' = Inr out" and "d \<in> set out"
  shows "samplesOf list' (date d) \<noteq> []
    \<and> minTemp d = Finite (Min (set (map it_main_temp (samplesOf list' (date d)))))
    \<and> maxTemp d = Finite (Max (set (map it_main_temp (samplesOf list' (date d)))))
    \<and> avgFeelsLike d
         = Some (round1_64 (mean64 (map it_main_feels_like (samplesOf list' (date d)))))
    \<and> avgHumidity d
         = Some (round1_64 (mean64 (map it_main_humidity (samplesOf list' (date d)))))
    \<and> avgPressure d
         = Some (round1_64 (mean64 (map it_main_pressure (samplesOf list' (date d)))))
    \<and> avgWindSpeed d
         = Some (round1_64 (mean64 (map (\<lambda>item. fmul (it_wind_speed item) (toDouble 3.6))
                                      (samplesOf list' (date d)))))
    \<and> avgClouds d
         = Some (round1_64 (mean64 (map it_clouds_all (samplesOf list' (date d)))))
    \<and> maxPop d
         = Some (Finite (Math_round (Max (set (map (\<lambda>item. fmul (it_pop item) 100)
                                                  (samplesOf list' (date d)))))))
    \<and> totalRain d = total_amended (map rainOf (samplesOf list' (date d)))
    \<and> totalSnow d = total_amended (map snowOf (samplesOf list' (date d)))"
proof -
  from aggregateForecast_entry [OF assms]
  have S: "samplesOf list' (date d) \<noteq> []"
    and d: "d = toForecastDay (date d) (aggregateOf (samplesOf list' (date d)))"
    by simp_all
  show ?thesis
    using S toForecastDay_fields [OF S, of "date d", folded d] by simp
qed

theorem daily_summary_of_samples_witness:
  "aggregateForecast (dryDay @ rainyDay) (Finite 5) = Inr [dryDaySummary, rainyDaySummary]
   \<and> dryDaySummary \<in> set [dryDaySummary, rainyDaySummary]
   \<and> rainyDaySummary \<in> set [dryDaySummary, rainyDaySummary]
   \<and> map it_main_temp dryDay = [10, 12, 15, 14, 13, 11, 9, 8]
   \<and> Min (set (map it_main_temp dryDay)) = 8
   \<and> Max (set (map it_main_temp dryDay)) = 15
   \<and> round1_64 (mean64 (map it_main_feels_like dryDay)) = 10.5
   \<and> total_amended (map rainOf dryDay) = None
   \<and> total_amended (map rainOf rainyDay) = Some (toDouble 1.9)"
proof -
  have m1: "dryDaySummary \<in> set [dryDaySummary, rainyDaySummary]" by simp
  have m2: "rainyDaySummary \<in> set [dryDaySummary, rainyDaySummary]" by simp
  have t: "map it_main_temp dryDay = [10, 12, 15, 14, 13, 11, 9, 8]"
    by (simp add: dryDay_def sampleItem_def)
  have d1: "date dryDaySummary = ''2024-01-01''" by (simp add: dryDaySummary_def)
  have d2: "date rainyDaySummary = ''2024-01-02''" by (simp add: rainyDaySummary_def)
  from daily_summary_of_samples [OF twoDays_aggregated m1]
  have "minTemp dryDaySummary = Finite (Min (set (map it_main_temp dryDay)))"
    and "maxTemp dryDaySummary = Finite (Max (set (map it_main_temp dryDay)))"
    and "avgFeelsLike dryDaySummary = Some (round1_64 (mean64 (map it_main_feels_like dryDay)))"
    and "totalRain dryDaySummary = total_amended (map rainOf dryDay)"
    by (simp_all only: d1 twoDays_samples)
  moreover from daily_summary_of_samples [OF twoDays_aggregated m2]
  have "totalRain rainyDaySummary = total_amended (map rainOf rainyDay)"
    by (simp only: d2 twoDays_samples)
  ultimately show ?thesis
    using twoDays_aggregated t by (simp add: dryDaySummary_def rainyDaySummary_def)
qed


section \<open>The shape of the aggregation output\<close>

lemma fold_min_le_fold_max: "fold min r (x :: real) \<le> fold max r x"
proof -
  have "Min (set (x # r)) \<le> x" and "x \<le> Max (set (x # r))"
    by (rule Min_le, simp, simp) (rule Max_ge, simp, simp)
  then have "Min (set (x # r)) \<le> Max (set (x # r))" by (rule order_trans)
  then show ?thesis by (simp only: Min.set_eq_fold Max.set_eq_fold)
qed

lemma Math_min_le_Math_max:
  "xs \<noteq> [] \<Longrightarrow> \<exists>lo hi. Math_min xs = Finite lo \<and> Math_max xs = Finite hi \<and> lo \<le> hi"
  by (cases xs) (simp_all add: Math_min_def Math_max_def fold_min_le_fold_max)

lemma aggregateForecast_bounds:
  assumes "aggregateForecast list' days' = Inr out"
  shows "length out = expectedLength days' (dateCount list')"
    and "distinct (map date out)"
    and "\<forall>d\<in>set out. \<exists>lo hi. minTemp d = Finite lo \<and> maxTemp d = Finite hi \<and> lo \<le> hi"
proof -
  from assms obtain byDate where g: "grouped list' byDate"
    and o: "out = map (\<lambda>(d, a). toForecastDay d a) (take (allowance days' 0 (length byDate)) byDate)"
    by (rule aggregateForecast_shape)
  show "length out = expectedLength days' (dateCount list')"
    using length_take_allowance [of days' byDate] grouped_length [OF g] by (simp add: o)
  have "map date out = take (allowance days' 0 (length byDate)) (map fst byDate)"
    by (simp add: o take_map case_prod_unfold date_toForecastDay comp_def)
  moreover from g have "distinct (map fst byDate)" by (simp add: grouped_def)
  ultimately show "distinct (map date out)" by simp
  show "\<forall>d\<in>set out. \<exists>lo hi. minTemp d = Finite lo \<and> maxTemp d = Finite hi \<and> lo \<le> hi"
  proof
    fix d assume "d \<in> set out"
    from aggregateForecast_entry [OF assms this]
    have S: "samplesOf list' (date d) \<noteq> []"
      and d: "d = toForecastDay (date d) (aggregateOf (samplesOf list' (date d)))"
      by simp_all
    from S have "map it_main_temp (samplesOf list' (date d)) \<noteq> []" by simp
    from Math_min_le_Math_max [OF this]
    have "\<exists>lo hi. minTemp (toForecastDay (date d) (aggregateOf (samplesOf list' (date d)))) = Finite lo
              \<and> maxTemp (toForecastDay (date d) (aggregateOf (samplesOf list' (date d)))) = Finite hi
              \<and> lo \<le> hi"
      by (simp add: toForecastDay_def Let_def aggregateOf_def)
    with d show "\<exists>lo hi. minTemp d = Finite lo \<and> maxTemp d = Finite hi \<and> lo \<le> hi" by simp
  qed
qed

lemma list_all_update:
  "list_all P al \<Longrightarrow> P (k, v) \<Longrightarrow> list_all P (AList.update k v al)"
  by (induction al) auto

lemma addItem_basic_grouped:
  assumes "grouped_basic pre byDate" and "addItem_basic item byDate = Inr b"
  shows "grouped_basic (pre @ [item]) b"
proof -
  let ?day = "case map_of byDate (dateOf item) of
                None \<Rightarrow> \<lparr>basic_temps = [], basic_descriptions = []\<rparr> | Some d \<Rightarrow> d"
  from assms(2) obtain w ws where w: "it_weather item = w # ws"
    by (cases "it_weather item") (simp_all add: addItem_basic_def Let_def)
  let ?new = "?day\<lparr>basic_temps := basic_temps ?day @ [it_main_temp item],
                    basic_descriptions := basic_descriptions ?day @ [cond_description w]\<rparr>"
  from assms(2) w have b: "b = AList.update (dateOf item) ?new byDate"
    by (simp add: addItem_basic_def Let_def dateOf_def)
  have "distinct (map fst b)"
    using assms(1) by (simp add: b grouped_basic_def distinct_update)
  moreover have "set (map fst b) = set (map dateOf (pre @ [item]))"
    using assms(1) by (auto simp: b grouped_basic_def dom_update)
  moreover have "list_all (\<lambda>(d, a). basic_temps a \<noteq> []) b"
    unfolding b using assms(1)
    by (intro list_all_update) (simp_all add: grouped_basic_def)
  ultimately show ?thesis by (simp add: grouped_basic_def)
qed

lemma groupByDate_basic_grouped:
  "grouped_basic pre byDate \<Longrightarrow> groupByDate_basic items byDate = Inr res
     \<Longrightarrow> grouped_basic (pre @ items) res"
proof (induction items arbitrary: pre byDate)
  case Nil
  then show ?case by simp
next
  case (Cons item rest)
  from Cons.prems(2) obtain b where b: "addItem_basic item byDate = Inr b"
    and r: "groupByDate_basic rest b = Inr res"
    by (auto split: sum.splits)
  from Cons.IH [OF addItem_basic_grouped [OF Cons.prems(1) b] r] show ?case by simp
qed

lemma groupByDate_basic_returns:
  "\<forall>item\<in>set items. it_weather item \<noteq> [] \<Longrightarrow> \<exists>res. groupByDate_basic items byDate = Inr res"
proof (induction items arbitrary: byDate)
  case Nil
  then show ?case by simp
next
  case (Cons item rest)
  then obtain w ws where "it_weather item = w # ws" by (cases "it_weather item") auto
  then obtain b where "addItem_basic item byDate = Inr b"
    by (simp add: addItem_basic_def Let_def)
  with Cons show ?case by simp
qed

lemma grouped_basic_length:
  assumes "grouped_basic list' byDate"
  shows "length byDate = dateCount list'"
proof -
  from assms have d: "distinct (map fst byDate)"
    and s: "set (map fst byDate) = set (map dateOf list')"
    by (simp_all add: grouped_basic_def)
  from distinct_card [OF d] s show ?thesis
    by (simp add: dateCount_def length_remdups_card_conv)
qed

lemma aggregateForecast_basic_bounds:
  assumes "aggregateForecast_basic list' days' = Inr out"
  shows "length out = expectedLength days' (dateCount list')"
    and "distinct (map date out)"
    and "\<forall>d\<in>set out. \<exists>lo hi. minTemp d = Finite lo \<and> maxTemp d = Finite hi \<and> lo \<le> hi"
proof -
  from assms obtain byDate where g: "groupByDate_basic list' [] = Inr byDate"
    and o: "out = map (\<lambda>(d, a). toForecastDay_basic d a)
                    (take (allowance days' 0 (length byDate)) byDate)"
    by (auto simp: aggregateForecast_basic_def convertDays_basic_take split: sum.splits)
  have "grouped_basic [] []" by (simp add: grouped_basic_def)
  from groupByDate_basic_grouped [OF this g] have gb: "grouped_basic list' byDate" by simp
  show "length out = expectedLength days' (dateCount list')"
    using length_take_allowance [of days' byDate] grouped_basic_length [OF gb] by (simp add: o)
  have "map date out = take (allowance days' 0 (length byDate)) (map fst byDate)"
    by (simp add: o take_map case_prod_unfold toForecastDay_basic_def comp_def)
  moreover from gb have "distinct (map fst byDate)" by (simp add: grouped_basic_def)
  ultimately show "distinct (map date out)" by simp
  show "\<forall>d\<in>set out. \<exists>lo hi. minTemp d = Finite lo \<and> maxTemp d = Finite hi \<and> lo \<le> hi"
  proof
    fix d assume "d \<in> set out"
    with o obtain dt a where m: "(dt, a) \<in> set byDate" and d: "d = toForecastDay_basic dt a"
      by (auto dest: in_set_takeD)
    from gb m have "basic_temps a \<noteq> []" by (auto simp: grouped_basic_def list_all_iff)
    from Math_min_le_Math_max [OF this] d
    show "\<exists>lo hi. minTemp d = Finite lo \<and> maxTemp d = Finite hi \<and> lo \<le> hi"
      by (simp add: toForecastDay_basic_def)
  qed
qed

lemma aggregateForecast_basic_returns:
  "\<forall>item\<in>set list'. it_weather item \<noteq> [] \<Longrightarrow> \<exists>out. aggregateForecast_basic list' days' = Inr out"
  using groupByDate_basic_returns [of list' "[]"]
  by (auto simp: aggregateForecast_basic_def)

lemma expectedLength_natural: "expectedLength (Finite (real n)) m \<le> n"
  by (simp add: expectedLength_def)

lemma twoDays_basic_grouping:
  "groupByDate_basic (dryDay @ rainyDay) [] =
     Inr [(''2024-01-01'',
           \<lparr>basic_temps = [10, 12, 15, 14, 13, 11, 9, 8],
            basic_descriptions = map firstDescription dryDay\<rparr>),
          (''2024-01-02'',
           \<lparr>basic_temps = [7, 6, 5, 9, 12, 11, 8, 6],
            basic_descriptions = map firstDescription rainyDay\<rparr>)]"
  by (simp add: dryDay_def rainyDay_def sampleItem_def addItem_basic_def Let_def
      splitSpaceFirst_def firstDescription_def)

lemma threeDays_basic_grouping:
  "groupByDate_basic (dryDay @ rainyDay @ drizzleDay) [] =
     Inr [(''2024-01-01'',
           \<lparr>basic_temps = [10, 12, 15, 14, 13, 11, 9, 8],
            basic_descriptions = map firstDescription dryDay\<rparr>),
          (''2024-01-02'',
           \<lparr>basic_temps = [7, 6, 5, 9, 12, 11, 8, 6],
            basic_descriptions = map firstDescription rainyDay\<rparr>),
          (''2024-01-03'',
           \<lparr>basic_temps = [10], basic_descriptions = map firstDescription drizzleDay\<rparr>)]"
  by (simp add: dryDay_def rainyDay_def drizzleDay_def sampleItem_def addItem_basic_def Let_def
      splitSpaceFirst_def firstDescription_def)

lemma twoDays_basic_first_only:
  "map_sum id (map (\<lambda>d. (date d, minTemp d, maxTemp d)))
     (aggregateForecast_basic (dryDay @ rainyDay) (Finite 1))
     = Inr [(''2024-01-01'', Finite 8, Finite 15)]"
  by (simp add: aggregateForecast_basic_def twoDays_basic_grouping toForecastDay_basic_def
      Math_min_def Math_max_def)

lemma twoDays_well_formed: "[] \<notin> set (map it_weather (dryDay @ rainyDay))"
  by (simp add: dryDay_def rainyDay_def sampleItem_def)

text \<open>
  C10, as stated, fails: the day count is any number the caller gives. With a count of -1
  the loop stops at once and the output is empty, and 0 entries are not at most -1; with
  a count of 2.5 and samples of three dates the loop stops when the output has 3 entries,
  and 3 is not at most 2.5. Both versions of the provider behave so.
\<close>

theorem aggregation_bound_claimed_counterexample:
  "dryDay @ rainyDay \<noteq> []
   \<and> map_sum id length (aggregateForecast (dryDay @ rainyDay) (Finite (- 1))) = Inr 0
   \<and> map_sum id length (aggregateForecast_basic (dryDay @ rainyDay) (Finite (- 1))) = Inr 0
   \<and> \<not> real 0 \<le> - 1
   \<and> map_sum id (map date) (aggregateForecast (dryDay @ rainyDay @ drizzleDay) (Finite 2.5))
        = Inr [''2024-01-01'', ''2024-01-02'', ''2024-01-03'']
   \<and> map_sum id (map date) (aggregateForecast_basic (dryDay @ rainyDay @ drizzleDay) (Finite 2.5))
        = Inr [''2024-01-01'', ''2024-01-02'', ''2024-01-03'']
   \<and> \<not> real (length [''2024-01-01'', ''2024-01-02'', ''2024-01-03'']) \<le> 2.5"
proof -
  have "dryDay @ rainyDay \<noteq> []" by (simp add: dryDay_def)
  then show ?thesis
    by (simp add: aggregateForecast_def aggregateForecast_basic_def twoDays_grouping
        threeDays_grouping twoDays_basic_grouping threeDays_basic_grouping date_toForecastDay
        toForecastDay_basic_def)
qed

text \<open>
  C10, amended. For every list of samples and every day count, the output of the
  aggregation, in the current and in the earlier version of the provider, has as many
  days as the samples have dates, up to the least natural number that is at least the
  day count (no bound for \<open>NaN\<close> and \<open>Infinity\<close>, none let through for a count of 0 or
  below); so it has at most \<open>n\<close> days when the count is a natural number \<open>n\<close>. Its dates
  are pairwise distinct, and \<open>minTemp\<close> is at most \<open>maxTemp\<close> (both finite) in every day.
  There is an output whenever every sample has a weather entry.
\<close>

theorem aggregation_length_distinct_ordered:
  "(\<forall>out. aggregateForecast list' days' = Inr out \<longrightarrow>
        length out = expectedLength days' (dateCount list')
      \<and> distinct (map date out)
      \<and> (\<forall>d\<in>set out. \<exists>lo hi. minTemp d = Finite lo \<and> maxTemp d = Finite hi \<and> lo \<le> hi))
   \<and> (\<forall>out. aggregateForecast_basic list' days' = Inr out \<longrightarrow>
        length out = expectedLength days' (dateCount list')
      \<and> distinct (map date out)
      \<and> (\<forall>d\<in>set out. \<exists>lo hi. minTemp d = Finite lo \<and> maxTemp d = Finite hi \<and> lo \<le> hi))
   \<and> (\<forall>out. aggregateForecast list' (Finite (real n)) = Inr out \<longrightarrow> length out \<le> n)
   \<and> (\<forall>out. aggregateForecast_basic list' (Finite (real n)) = Inr out \<longrightarrow> length out \<le> n)
   \<and> ((\<forall>item\<in>set list'. it_weather item \<noteq> []) \<longrightarrow>
        (\<exists>out. aggregateForecast list' days' = Inr out)
        \<and> (\<exists>out. aggregateForecast_basic list' days' = Inr out))"
proof -
  have "length out \<le> n" if "aggregateForecast list' (Finite (real n)) = Inr out" for out
    using aggregateForecast_bounds(1) [OF that] expectedLength_natural [of n "dateCount list'"]
    by simp
  moreover
  have "length out \<le> n" if "aggregateForecast_basic list' (Finite (real n)) = Inr out" for out
    using aggregateForecast_basic_bounds(1) [OF that]
      expectedLength_natural [of n "dateCount list'"]
    by simp
  ultimately show ?thesis
    using aggregateForecast_bounds [of list' days'] aggregateForecast_basic_bounds [of list' days']
      aggregateForecast_returns [of list' days'] aggregateForecast_basic_returns [of list' days']
    by blast
qed

theorem aggregation_length_distinct_ordered_witness:
  "[] \<notin> set (map it_weather (dryDay @ rainyDay))
   \<and> aggregateForecast (dryDay @ rainyDay) (Finite (real 1)) = Inr [dryDaySummary]
   \<and> map_sum id (map (\<lambda>d. (date d, minTemp d, maxTemp d)))
        (aggregateForecast_basic (dryDay @ rainyDay) (Finite 1))
        = Inr [(''2024-01-01'', Finite 8, Finite 15)]
   \<and> dateCount (dryDay @ rainyDay) = 2
   \<and> expectedLength (Finite 1) 2 = 1
   \<and> length [dryDaySummary] = expectedLength (Finite 1) (dateCount (dryDay @ rainyDay))
   \<and> length [dryDaySummary] \<le> 1
   \<and> distinct (map date [dryDaySummary])
   \<and> minTemp dryDaySummary = Finite 8 \<and> maxTemp dryDaySummary = Finite 15"
proof -
  have a: "aggregateForecast (dryDay @ rainyDay) (Finite (real 1)) = Inr [dryDaySummary]"
    using twoDays_first_only by simp
  have e: "expectedLength (Finite 1) 2 = 1" by (simp add: expectedLength_def)
  from aggregation_length_distinct_ordered [of "dryDay @ rainyDay" "Finite (real 1)" 1] a
  have "length [dryDaySummary] = expectedLength (Finite (real 1)) (dateCount (dryDay @ rainyDay))
        \<and> length [dryDaySummary] \<le> 1 \<and> distinct (map date [dryDaySummary])"
    by blast
  with a e twoDays_basic_first_only twoDays_well_formed twoDays_dateCount
  show ?thesis by (simp add: dryDaySummary_def)
qed

end
